theory Spec2Isabelle
  imports Complex_Main
begin

section \<open>Numeric model\<close>

text \<open>
  The notebook computes with NumPy \<open>float64\<close> values. Two models of them are used.

  The claims about the expression a function evaluates, about shapes and about control
  flow are stated over real numbers: rounding, overflow, underflow and signed zeros are
  not modelled there. What is modelled is definedness. NumPy does not raise on a division
  by zero, it stores \<open>inf\<close> or \<open>nan\<close> in the element and carries on, so an array
  element is a \<open>real option\<close>: \<open>Some r\<close> is the finite value \<open>r\<close>, and \<open>None\<close> marks an
  element whose computation divided by zero (in NumPy an \<open>inf\<close>, a \<open>nan\<close>, or a value
  derived from one). Every elementwise operation is strict in \<open>None\<close>.

  The claims about the values themselves (symmetry, sign, the zero direction) depend on
  rounding and on overflow. They are stated over the binary64 model of the section on
  binary64 arithmetic below, in which the same functions are written out once more.
\<close>

type_synonym npfloat = "real option"

text \<open>The literal \<open>1e-11\<close> that the notebook adds to denominators.\<close>

definition eps :: real where
  "eps = 1 / 10 ^ 11"

definition np_add :: "npfloat \<Rightarrow> npfloat \<Rightarrow> npfloat" where
  "np_add a b = (case (a, b) of (Some u, Some v) \<Rightarrow> Some (u + v) | _ \<Rightarrow> None)"

definition np_sub :: "npfloat \<Rightarrow> npfloat \<Rightarrow> npfloat" where
  "np_sub a b = (case (a, b) of (Some u, Some v) \<Rightarrow> Some (u - v) | _ \<Rightarrow> None)"

definition np_mul :: "npfloat \<Rightarrow> npfloat \<Rightarrow> npfloat" where
  "np_mul a b = (case (a, b) of (Some u, Some v) \<Rightarrow> Some (u * v) | _ \<Rightarrow> None)"

text \<open>\<open>np.divide\<close> and \<open>/\<close> on arrays: a zero divisor gives a non-finite element.\<close>

definition np_divide :: "npfloat \<Rightarrow> npfloat \<Rightarrow> npfloat" where
  "np_divide a b =
     (case (a, b) of
        (Some u, Some v) \<Rightarrow> if v = 0 then None else Some (u / v)
      | _ \<Rightarrow> None)"

definition np_neg :: "npfloat \<Rightarrow> npfloat" where
  "np_neg a = map_option uminus a"

definition np_pow :: "npfloat \<Rightarrow> nat \<Rightarrow> npfloat" where
  "np_pow a n = map_option (\<lambda>u. u ^ n) a"

definition np_exp :: "npfloat \<Rightarrow> npfloat" where
  "np_exp a = map_option exp a"

definition np_abs :: "npfloat \<Rightarrow> npfloat" where
  "np_abs a = map_option abs a"

definition np_sign :: "npfloat \<Rightarrow> npfloat" where
  "np_sign a = map_option sgn a"

section \<open>The Gaussian and its partial derivatives\<close>

text \<open>
  Every operation in the bodies of \<open>gaussian\<close> and \<open>gaussian_partial_*\<close> is elementwise,
  so each function is given by its value at one sample; the body of the \<open>_at\<close>
  definition follows the source line by line. The definitions are those of the complete
  notebook. The file also holds an earlier state of it, in which the amplitudes of
  \<open>gaussian\<close>, \<open>gaussian_partial_I\<close> and \<open>gaussian_partial_sigma\<close> are divided by
  \<open>sqrt (2 pi) sigma\<close> (or \<open>sigma ** 2\<close>) with nothing added.
\<close>

definition gaussian_at :: "npfloat \<Rightarrow> npfloat \<Rightarrow> npfloat \<Rightarrow> npfloat \<Rightarrow> npfloat" where
  "gaussian_at x I mu sigma =
     (let diff = np_sub x mu;
          dist = np_pow diff 2;
          exponential =
            np_exp (np_divide (np_neg dist)
                      (np_add (np_mul (Some 2) (np_pow sigma 2)) (Some eps)));
          amplitude =
            np_divide (np_abs I)
              (np_add (np_mul (Some (sqrt (2 * pi))) sigma) (Some eps))
      in np_mul amplitude exponential)"

text \<open>\<open>gaussian(x, I, mu, sigma)\<close> with \<open>x\<close> a one-dimensional array and scalar parameters.\<close>

definition gaussian :: "real list \<Rightarrow> real \<Rightarrow> real \<Rightarrow> real \<Rightarrow> npfloat list" where
  "gaussian x I mu sigma =
     map (\<lambda>xj. gaussian_at (Some xj) (Some I) (Some mu) (Some sigma)) x"

definition gaussian_partial_I_at ::
    "npfloat \<Rightarrow> npfloat \<Rightarrow> npfloat \<Rightarrow> npfloat \<Rightarrow> npfloat" where
  "gaussian_partial_I_at x I mu sigma =
     (let diff = np_sub x mu;
          dist = np_pow diff 2;
          exponential =
            np_exp (np_divide (np_neg dist)
                      (np_add (np_mul (Some 2) (np_pow sigma 2)) (Some eps)));
          amplitude =
            np_divide (np_sign I)
              (np_add (np_mul (Some (sqrt (2 * pi))) sigma) (Some eps))
      in np_mul amplitude exponential)"

definition gaussian_partial_mu_at ::
    "npfloat \<Rightarrow> npfloat \<Rightarrow> npfloat \<Rightarrow> npfloat \<Rightarrow> npfloat" where
  "gaussian_partial_mu_at x I mu sigma =
     (let diff = np_sub x mu;
          dist = np_pow diff 2;
          exponential =
            np_exp (np_divide (np_neg dist)
                      (np_add (np_mul (Some 2) (np_pow sigma 2)) (Some eps)));
          amplitude =
            np_divide (np_mul I (np_sub x mu))
              (np_mul (Some (sqrt (2 * pi))) (np_pow sigma 3))
      in np_mul amplitude exponential)"

definition gaussian_partial_sigma_at ::
    "npfloat \<Rightarrow> npfloat \<Rightarrow> npfloat \<Rightarrow> npfloat \<Rightarrow> npfloat" where
  "gaussian_partial_sigma_at x I mu sigma =
     (let diff = np_sub x mu;
          dist = np_pow diff 2;
          exponential =
            np_exp (np_divide (np_neg dist)
                      (np_add (np_mul (Some 2) (np_pow sigma 2)) (Some eps)));
          amplitude =
            np_divide
              (np_mul I (np_sub (np_divide (np_pow (np_sub x mu) 2) (np_pow sigma 2)) (Some 1)))
              (np_add (np_mul (Some (sqrt (2 * pi))) (np_pow sigma 2)) (Some eps))
      in np_mul amplitude exponential)"

section \<open>Arrays, shapes and exceptions\<close>

text \<open>
  The exceptions of the Python runtime that the notebook's functions can raise.
  \<open>ConfigurationError\<close> is the error kind the specification names; no path of the
  notebook raises it.
\<close>

datatype py_error = TypeError | IndexError | ValueError | ConfigurationError

definition bind_err :: "'e + 'a \<Rightarrow> ('a \<Rightarrow> 'e + 'b) \<Rightarrow> 'e + 'b" where
  "bind_err m f = (case m of Inl e \<Rightarrow> Inl e | Inr v \<Rightarrow> f v)"

text \<open>
  A one-dimensional array is a list. An (N x 3) array is a list of N rows, each row a
  triple (columns \<open>I\<close>, \<open>mu\<close>, \<open>sigma\<close>).
\<close>

type_synonym row3 = "npfloat \<times> npfloat \<times> npfloat"
type_synonym block = "row3 list"

text \<open>
  A binary elementwise operation on two arrays broadcasts along the first axis: equal
  lengths pair up, an array of length 1 is stretched to the other's length, anything
  else raises \<open>ValueError\<close>.
\<close>

definition np_broadcast :: "('a \<Rightarrow> 'b \<Rightarrow> 'c) \<Rightarrow> 'a list \<Rightarrow> 'b list \<Rightarrow> py_error + 'c list" where
  "np_broadcast f xs ys =
     (if length xs = length ys then Inr (map2 f xs ys)
      else if length xs = 1 then Inr (map (f (hd xs)) ys)
      else if length ys = 1 then Inr (map (\<lambda>a. f a (hd ys)) xs)
      else Inl ValueError)"

text \<open>
  A function of four array arguments whose body is elementwise: the four arrays are
  broadcast against each other.
\<close>

definition np_elementwise4 ::
    "('a \<Rightarrow> 'b \<Rightarrow> 'c \<Rightarrow> 'd \<Rightarrow> 'r) \<Rightarrow> 'a list \<Rightarrow> 'b list \<Rightarrow> 'c list \<Rightarrow> 'd list \<Rightarrow> py_error + 'r list" where
  "np_elementwise4 f x I mu sigma =
     bind_err (np_broadcast Pair x I) (\<lambda>xI.
     bind_err (np_broadcast Pair mu sigma) (\<lambda>ms.
     np_broadcast (\<lambda>(xj, Ij) (mj, sj). f xj Ij mj sj) xI ms))"

definition row_map :: "(npfloat \<Rightarrow> npfloat) \<Rightarrow> row3 \<Rightarrow> row3" where
  "row_map f r = (case r of (a, b, c) \<Rightarrow> (f a, f b, f c))"

definition row_map2 :: "(npfloat \<Rightarrow> npfloat \<Rightarrow> npfloat) \<Rightarrow> row3 \<Rightarrow> row3 \<Rightarrow> row3" where
  "row_map2 f r s = (case (r, s) of ((a, b, c), (a', b', c')) \<Rightarrow> (f a a', f b b', f c c'))"

text \<open>\<open>np.dot\<close> of two vectors of length 3.\<close>

definition np_dot3 :: "row3 \<Rightarrow> row3 \<Rightarrow> npfloat" where
  "np_dot3 r s =
     (case (r, s) of
        ((a, b, c), (a', b', c')) \<Rightarrow> np_add (np_add (np_mul a a') (np_mul b b')) (np_mul c c'))"

definition np_sum :: "npfloat list \<Rightarrow> npfloat" where
  "np_sum xs = foldl np_add (Some 0) xs"

section \<open>Helper functions of the notebook\<close>

text \<open>
  \<open>gaussian_gradient(x, I, mu, sigma, direction_vector=None)\<close>. Without a direction the
  three partials are evaluated at the scalar parameters and stacked as columns. With a
  direction, \<open>np.ones_like(x) * I\<close> (and likewise \<open>mu\<close>, \<open>sigma\<close>) has the shape of \<open>x\<close>,
  each column of the direction is added to it, and the partials are evaluated at the
  resulting per-sample parameters. \<open>np.transpose\<close> is the identity on a one-dimensional
  array; the three columns always have the same length.
\<close>

definition gaussian_gradient ::
    "real list \<Rightarrow> real \<Rightarrow> real \<Rightarrow> real \<Rightarrow> block option \<Rightarrow> py_error + block" where
  "gaussian_gradient x I mu sigma direction_vector =
     (case direction_vector of
        None \<Rightarrow>
          (let partial_I = map (\<lambda>xj. gaussian_partial_I_at (Some xj) (Some I) (Some mu) (Some sigma)) x;
               partial_mu = map (\<lambda>xj. gaussian_partial_mu_at (Some xj) (Some I) (Some mu) (Some sigma)) x;
               partial_sigma = map (\<lambda>xj. gaussian_partial_sigma_at (Some xj) (Some I) (Some mu) (Some sigma)) x
           in Inr (zip partial_I (zip partial_mu partial_sigma)))
      | Some dv \<Rightarrow>
          (let xs = map Some x;
               I_arr = map (\<lambda>_. Some (1 * I)) x;
               mu_arr = map (\<lambda>_. Some (1 * mu)) x;
               sigma_arr = map (\<lambda>_. Some (1 * sigma)) x;
               I_dir = map fst dv;
               m_dir = map (\<lambda>r. fst (snd r)) dv;
               s_dir = map (\<lambda>r. snd (snd r)) dv
           in bind_err (np_broadcast np_add I_arr I_dir) (\<lambda>Ip.
              bind_err (np_broadcast np_add mu_arr m_dir) (\<lambda>mp.
              bind_err (np_broadcast np_add sigma_arr s_dir) (\<lambda>sp.
              bind_err (np_elementwise4 gaussian_partial_I_at xs Ip mp sp) (\<lambda>partial_I.
              bind_err (np_elementwise4 gaussian_partial_mu_at xs Ip mp sp) (\<lambda>partial_mu.
              bind_err (np_elementwise4 gaussian_partial_sigma_at xs Ip mp sp) (\<lambda>partial_sigma.
              Inr (zip partial_I (zip partial_mu partial_sigma))))))))))"

text \<open>
  \<open>hessian_product(x, I, mu, sigma, direction_vector, epsilon)\<close>: the forward difference
  of the gradient; the subtraction broadcasts over rows.
\<close>

definition hessian_product ::
    "real list \<Rightarrow> real \<Rightarrow> real \<Rightarrow> real \<Rightarrow> block \<Rightarrow> real \<Rightarrow> py_error + block" where
  "hessian_product x I mu sigma direction_vector epsilon =
     bind_err (gaussian_gradient x I mu sigma
                 (Some (map (row_map (np_mul (Some epsilon))) direction_vector))) (\<lambda>fx_ed.
     bind_err (gaussian_gradient x I mu sigma None) (\<lambda>fx.
     bind_err (np_broadcast (row_map2 np_sub) fx_ed fx) (\<lambda>d.
     Inr (map (row_map (\<lambda>v. np_divide v (Some epsilon))) d))))"

text \<open>
  \<open>pointwise_dotproduct(vector, hessian_times_direction)\<close>: the loop runs over the rows
  of the first argument and reads the same row of the second, which raises
  \<open>IndexError\<close> when the second has fewer rows.
\<close>

definition pointwise_dotproduct :: "block \<Rightarrow> block \<Rightarrow> py_error + npfloat list" where
  "pointwise_dotproduct vector hessian_times_direction =
     (let length' = length vector
      in if length' \<le> length hessian_times_direction
         then Inr (map (\<lambda>i. np_dot3 (vector ! i) (hessian_times_direction ! i)) [0..<length'])
         else Inl IndexError)"

text \<open>
  \<open>np.dot(hess_in, params)\<close>: an (N x 3) array times a one-dimensional array, which must
  have length 3.
\<close>

definition np_dot_block_vec :: "block \<Rightarrow> real list \<Rightarrow> py_error + npfloat list" where
  "np_dot_block_vec hess_in params =
     (case params of
        [p1, p2, p3] \<Rightarrow> Inr (map (\<lambda>row. np_dot3 row (Some p1, Some p2, Some p3)) hess_in)
      | _ \<Rightarrow> Inl ValueError)"

text \<open>\<open>get_alpha(params, grad_in, hess_in, dir_vec)\<close>.\<close>

definition get_alpha ::
    "real list \<Rightarrow> block \<Rightarrow> block \<Rightarrow> block \<Rightarrow> py_error + npfloat list" where
  "get_alpha params grad_in hess_in dir_vec =
     bind_err (np_dot_block_vec hess_in params) (\<lambda>term1.
     bind_err (pointwise_dotproduct dir_vec grad_in) (\<lambda>term2.
     bind_err (np_broadcast np_add term1 term2) (\<lambda>s.
     let numerator = map (np_mul (Some (- 1))) s
     in bind_err (pointwise_dotproduct dir_vec hess_in) (\<lambda>pd.
        let denominator = map (\<lambda>v. np_add v (Some eps)) pd
        in np_broadcast np_divide numerator denominator))))"

definition get_beta :: "block \<Rightarrow> block \<Rightarrow> block \<Rightarrow> py_error + npfloat list" where
  "get_beta grad_in hess_in dir_vec =
     bind_err (pointwise_dotproduct grad_in hess_in) (\<lambda>numerator.
     bind_err (pointwise_dotproduct dir_vec hess_in) (\<lambda>denominator.
     np_broadcast np_divide numerator denominator))"

section \<open>Main algorithm of the notebook\<close>

text \<open>
  \<open>multiple_gaussians(x, params)\<close>. The loop visits \<open>i = 0, 3, 6, ...\<close> below
  \<open>len(params)\<close> and reads \<open>params[i]\<close>, \<open>params[i+1]\<close>, \<open>params[i+2]\<close>; the model
  recurses on the elements from index \<open>i\<close> on. With one or two elements left the read
  of \<open>params[i+1]\<close> or \<open>params[i+2]\<close> raises \<open>IndexError\<close>. The exception is paired
  with \<open>output_result\<close> as it stands when the exception is raised.
\<close>

fun multiple_gaussians_loop ::
    "real list \<Rightarrow> real list \<Rightarrow> npfloat list \<Rightarrow> (py_error \<times> npfloat list) + npfloat list" where
  "multiple_gaussians_loop x [] output_result = Inr output_result"
| "multiple_gaussians_loop x [a] output_result = Inl (IndexError, output_result)"
| "multiple_gaussians_loop x [a, b] output_result = Inl (IndexError, output_result)"
| "multiple_gaussians_loop x (a # b # c # rest) output_result =
     multiple_gaussians_loop x rest (map2 np_add output_result (gaussian x a b c))"

definition multiple_gaussians ::
    "real list \<Rightarrow> real list \<Rightarrow> (py_error \<times> npfloat list) + npfloat list" where
  "multiple_gaussians x params = multiple_gaussians_loop x params (map (\<lambda>_. Some 0) x)"

text \<open>\<open>range(0, n, 3)\<close>.\<close>

definition range3 :: "nat \<Rightarrow> nat list" where
  "range3 n = map (\<lambda>k. 3 * k) [0..<(n + 2) div 3]"

text \<open>
  The call \<open>gaussian_gradient(x, *args)\<close> with \<open>args\<close> a one-dimensional array. Three
  elements bind \<open>I, mu, sigma\<close>. Fewer leave a required parameter missing
  (\<open>TypeError\<close>); a fourth lands in \<open>direction_vector\<close>, a scalar that cannot be indexed
  with \<open>[:, 0]\<close> (\<open>IndexError\<close>); more are too many arguments (\<open>TypeError\<close>).
\<close>

definition call_gaussian_gradient :: "real list \<Rightarrow> real list \<Rightarrow> py_error + block" where
  "call_gaussian_gradient x args =
     (case args of
        [I, mu, sigma] \<Rightarrow> gaussian_gradient x I mu sigma None
      | [I, mu, sigma, direction_vector] \<Rightarrow> Inl IndexError
      | _ \<Rightarrow> Inl TypeError)"

text \<open>\<open>*n\<close> in an argument list with \<open>n\<close> an integer: an integer is not iterable.\<close>

definition unpack_int :: "nat \<Rightarrow> py_error + real list" where
  "unpack_int n = Inl TypeError"

text \<open>
  \<open>list_dirvecs(x, start_params)\<close>. The loop variable \<open>triplet\<close> is an integer of
  \<open>range(0, len(start_params), 3)\<close>, and the call is \<open>gaussian_gradient(x, *triplet)\<close>.
\<close>

fun list_dirvecs_loop :: "real list \<Rightarrow> nat list \<Rightarrow> block list \<Rightarrow> py_error + block list" where
  "list_dirvecs_loop x [] output_list = Inr output_list"
| "list_dirvecs_loop x (triplet # rest) output_list =
     bind_err (unpack_int triplet) (\<lambda>args.
     bind_err (call_gaussian_gradient x args) (\<lambda>g.
     list_dirvecs_loop x rest (output_list @ [g])))"

definition list_dirvecs :: "real list \<Rightarrow> real list \<Rightarrow> py_error + block list" where
  "list_dirvecs x start_params = list_dirvecs_loop x (range3 (length start_params)) []"

text \<open>\<open>np.dot(alpha, dir_vec)\<close>: a vector times an (N x 3) array; the lengths must agree.\<close>

definition np_dot_vec_block :: "npfloat list \<Rightarrow> block \<Rightarrow> py_error + npfloat list" where
  "np_dot_vec_block alpha dir_vec =
     (if length alpha = length dir_vec
      then Inr [np_sum (map2 np_mul alpha (map fst dir_vec)),
                np_sum (map2 np_mul alpha (map (\<lambda>r. fst (snd r)) dir_vec)),
                np_sum (map2 np_mul alpha (map (\<lambda>r. snd (snd r)) dir_vec))]
      else Inl ValueError)"

text \<open>
  The call \<open>hessian_product(x, *args, direction_vector, epsilon=epsilon)\<close>: with other
  than three elements in \<open>args\<close> a parameter is missing or \<open>epsilon\<close> is given twice.
\<close>

definition call_hessian_product ::
    "real list \<Rightarrow> real list \<Rightarrow> block \<Rightarrow> real \<Rightarrow> py_error + block" where
  "call_hessian_product x args direction_vector epsilon =
     (case args of
        [I, mu, sigma] \<Rightarrow> hessian_product x I mu sigma direction_vector epsilon
      | _ \<Rightarrow> Inl TypeError)"

text \<open>
  The call \<open>get_beta(x, grad_vec, hess_vec, dir_vec)\<close>: \<open>get_beta\<close> has three parameters,
  and a call with four positional arguments raises \<open>TypeError\<close> before the body runs.
\<close>

definition call_get_beta_4 ::
    "real list \<Rightarrow> block \<Rightarrow> block \<Rightarrow> block \<Rightarrow> py_error + npfloat list" where
  "call_get_beta_4 x grad_in hess_in dir_vec = Inl TypeError"

text \<open>
  \<open>single_iter(x, attempt, dir_vec)\<close>, with \<open>attempt\<close> a one-dimensional array. The
  lines after the call of \<open>get_beta\<close> are its continuation.
\<close>

definition single_iter ::
    "real list \<Rightarrow> real list \<Rightarrow> block \<Rightarrow>
       py_error + (npfloat list \<times> block \<times> npfloat list \<times> npfloat list)" where
  "single_iter x attempt dir_vec =
     bind_err (call_gaussian_gradient x attempt) (\<lambda>grad_vec.
     bind_err (call_hessian_product x attempt grad_vec (1 / 10 ^ 5)) (\<lambda>hess_vec.
     bind_err (get_alpha attempt grad_vec hess_vec dir_vec) (\<lambda>alpha.
     bind_err (np_dot_vec_block alpha dir_vec) (\<lambda>step.
     bind_err (np_broadcast np_add (map Some attempt) step) (\<lambda>attempt'.
     bind_err (call_get_beta_4 x grad_vec hess_vec dir_vec) (\<lambda>beta.
     bind_err (np_broadcast (\<lambda>b. row_map (np_mul b)) beta dir_vec) (\<lambda>scaled.
     bind_err (np_broadcast (row_map2 np_add) (map (row_map np_neg) grad_vec) scaled)
       (\<lambda>new_dir_vec.
     Inr (attempt', new_dir_vec, alpha, beta)))))))))"

text \<open>The inner \<open>for\<close> loop of \<open>conjugate_gradient\<close>; the results of \<open>single_iter\<close> are dropped.\<close>

fun for_each_peak :: "real list \<Rightarrow> (real list \<times> block) list \<Rightarrow> py_error + unit" where
  "for_each_peak x [] = Inr ()"
| "for_each_peak x ((attempt, dir_vec) # rest) =
     (case single_iter x attempt dir_vec of
        Inl e \<Rightarrow> Inl e
      | Inr _ \<Rightarrow> for_each_peak x rest)"

text \<open>
  The \<open>while switch:\<close> loop. Nothing in its body assigns \<open>switch\<close>, \<open>attempts\<close> or
  \<open>prev_dirvecs\<close>. The result \<open>None\<close> stands for a run that never returns.
\<close>

partial_function (option) while_switch ::
    "bool \<Rightarrow> real list \<Rightarrow> real list list \<Rightarrow> block list \<Rightarrow> (py_error + unit) option" where
  "while_switch switch x attempts prev_dirvecs =
     (if switch
      then (case for_each_peak x (zip attempts prev_dirvecs) of
              Inl e \<Rightarrow> Some (Inl e)
            | Inr _ \<Rightarrow> while_switch switch x attempts prev_dirvecs)
      else Some (Inr ()))"

text \<open>
  \<open>conjugate_gradient(x, y, start_params)\<close>. The slice \<open>start_params[i:i+3]\<close> never
  raises. The argument \<open>y\<close> is not used, and the locals \<open>alphas\<close>, \<open>betas\<close>, \<open>derivs\<close>,
  \<open>loop_num\<close>, \<open>old_betas\<close> and \<open>updated_attempts\<close> are assigned and never read.
\<close>

definition conjugate_gradient ::
    "real list \<Rightarrow> real list \<Rightarrow> real list \<Rightarrow> (py_error + unit) option" where
  "conjugate_gradient x y start_params =
     (let switch = True;
          attempts = map (\<lambda>i. take 3 (drop i start_params)) (range3 (length start_params))
      in case list_dirvecs x start_params of
           Inl e \<Rightarrow> Some (Inl e)
         | Inr prev_dirvecs \<Rightarrow> while_switch switch x attempts prev_dirvecs)"

section \<open>Notation for the statements\<close>

text \<open>Row \<open>j\<close> of the gradient: the three partials at one sample.\<close>

definition gradient_row :: "npfloat \<Rightarrow> npfloat \<Rightarrow> npfloat \<Rightarrow> npfloat \<Rightarrow> row3" where
  "gradient_row x I mu sigma =
     (gaussian_partial_I_at x I mu sigma,
      gaussian_partial_mu_at x I mu sigma,
      gaussian_partial_sigma_at x I mu sigma)"

text \<open>An (N x 3) array all of whose entries are finite, and the inner product of two of its rows.\<close>

definition finite_row :: "real \<times> real \<times> real \<Rightarrow> row3" where
  "finite_row r = (case r of (a, b, c) \<Rightarrow> (Some a, Some b, Some c))"

definition finite_block :: "(real \<times> real \<times> real) list \<Rightarrow> block" where
  "finite_block rows = map finite_row rows"

definition dot3 :: "real \<times> real \<times> real \<Rightarrow> real \<times> real \<times> real \<Rightarrow> real" where
  "dot3 r s = (case (r, s) of ((a, b, c), (a', b', c')) \<Rightarrow> a * a' + b * b' + c * c')"

text \<open>
  What a run of the \<open>while\<close> loop can return: with \<open>switch\<close> set, only an exception
  raised by the body.
\<close>

definition loop_outcome ::
    "bool \<Rightarrow> real list \<Rightarrow> real list list \<Rightarrow> block list \<Rightarrow> py_error + unit \<Rightarrow> bool" where
  "loop_outcome s x a p r =
     (if s then for_each_peak x (zip a p) = r \<and> isl r else r = Inr ())"

section \<open>Binary64 arithmetic\<close>

text \<open>
  IEEE 754 binary64, the format of \<open>float64\<close>. A value is a real number, an infinity or
  \<open>nan\<close>. The finite values that a computation produces are results of \<open>round64\<close>. The
  model has one zero, which behaves as \<open>+0\<close>: a quotient by it has the sign of the
  dividend. The sign of a zero shows nowhere else than in the sign of such a quotient.
\<close>

datatype float64 = Fin real | PInf | NInf | NaN

text \<open>Rounding to the nearest integer, a tie to the even one.\<close>

definition round_half_even :: "real \<Rightarrow> int" where
  "round_half_even y =
     (let f = \<lfloor>y\<rfloor>; r = y - of_int f
      in if r < 1 / 2 then f else if 1 / 2 < r then f + 1 else if even f then f else f + 1)"

text \<open>
  The binary exponent of \<open>x\<close>, held at \<open>- 1022\<close> for the subnormal numbers. Around \<open>x\<close> the
  binary64 numbers are the multiples of \<open>2 ^ (binade x - 52)\<close> (53 significant bits), and
  never finer than \<open>2 ^ - 1074\<close>.
\<close>

definition binade :: "real \<Rightarrow> int" where
  "binade x = max \<lfloor>log 2 \<bar>x\<bar>\<rfloor> (- 1022)"

text \<open>
  Rounding to nearest, ties to even. A rounded magnitude of \<open>2 ^ 1024\<close> or more overflows
  to an infinity; a magnitude below half of \<open>2 ^ - 1074\<close> underflows to zero.
\<close>

definition round64 :: "real \<Rightarrow> float64" where
  "round64 x =
     (if x = 0 then Fin 0
      else let q = 2 powr of_int (binade x - 52);
               r = q * of_int (round_half_even (x / q))
           in if 2 ^ 1024 \<le> \<bar>r\<bar> then (if 0 < x then PInf else NInf) else Fin r)"

text \<open>
  The elementary operations. IEEE 754 requires \<open>+\<close>, \<open>-\<close>, \<open>*\<close>, \<open>/\<close> and \<open>sqrt\<close> to be
  correctly rounded; negation, \<open>abs\<close> and \<open>sign\<close> are exact. The operands are NumPy
  arrays and NumPy scalars (the notebook takes \<open>I\<close>, \<open>mu\<close> and \<open>sigma\<close> out of the parameter
  array); on these no operation raises, an overflow, a division by zero or an invalid
  operation stores \<open>inf\<close> or \<open>nan\<close>.
\<close>

primrec fneg :: "float64 \<Rightarrow> float64" where
  "fneg (Fin a) = Fin (- a)"
| "fneg PInf = NInf"
| "fneg NInf = PInf"
| "fneg NaN = NaN"


primrec fsign :: "float64 \<Rightarrow> float64" where
  "fsign (Fin a) = Fin (sgn a)"
| "fsign PInf = Fin 1"
| "fsign NInf = Fin (- 1)"
| "fsign NaN = NaN"

fun fadd :: "float64 \<Rightarrow> float64 \<Rightarrow> float64" where
  "fadd (Fin a) (Fin b) = round64 (a + b)"
| "fadd NaN _ = NaN"
| "fadd _ NaN = NaN"
| "fadd PInf NInf = NaN"
| "fadd NInf PInf = NaN"
| "fadd PInf _ = PInf"
| "fadd _ PInf = PInf"
| "fadd NInf _ = NInf"
| "fadd _ NInf = NInf"

definition fsub :: "float64 \<Rightarrow> float64 \<Rightarrow> float64" where
  "fsub a b = fadd a (fneg b)"

fun fmul :: "float64 \<Rightarrow> float64 \<Rightarrow> float64" where
  "fmul (Fin a) (Fin b) = round64 (a * b)"
| "fmul NaN _ = NaN"
| "fmul _ NaN = NaN"
| "fmul (Fin a) PInf = (if a = 0 then NaN else if 0 < a then PInf else NInf)"
| "fmul (Fin a) NInf = (if a = 0 then NaN else if 0 < a then NInf else PInf)"
| "fmul PInf (Fin b) = (if b = 0 then NaN else if 0 < b then PInf else NInf)"
| "fmul NInf (Fin b) = (if b = 0 then NaN else if 0 < b then NInf else PInf)"
| "fmul PInf PInf = PInf"
| "fmul PInf NInf = NInf"
| "fmul NInf PInf = NInf"
| "fmul NInf NInf = PInf"

fun fdiv :: "float64 \<Rightarrow> float64 \<Rightarrow> float64" where
  "fdiv (Fin a) (Fin b) =
     (if b = 0 then (if a = 0 then NaN else if 0 < a then PInf else NInf)
      else round64 (a / b))"
| "fdiv NaN _ = NaN"
| "fdiv _ NaN = NaN"
| "fdiv (Fin a) _ = Fin 0"
| "fdiv PInf (Fin b) = (if 0 \<le> b then PInf else NInf)"
| "fdiv NInf (Fin b) = (if 0 \<le> b then NInf else PInf)"
| "fdiv _ _ = NaN"

primrec fsqrt :: "float64 \<Rightarrow> float64" where
  "fsqrt (Fin a) = (if a < 0 then NaN else round64 (sqrt a))"
| "fsqrt PInf = PInf"
| "fsqrt NInf = NaN"
| "fsqrt NaN = NaN"

text \<open>
  \<open>np.pi\<close> and the literal \<open>1e-11\<close> are the binary64 numbers nearest to \<open>pi\<close> and to
  \<open>10 ^ - 11\<close>.
\<close>

definition pi64 :: float64 where
  "pi64 = round64 pi"

definition eps64 :: float64 where
  "eps64 = round64 (1 / 10 ^ 11)"

text \<open>
  IEEE 754 does not fix the last bit of \<open>exp\<close> and \<open>pow\<close>. \<open>np.exp\<close> and the \<open>**\<close> of a
  scalar (the \<open>pow\<close> of the C library) are therefore parameters \<open>exp_impl\<close> and \<open>pow_impl\<close>
  of the functions below, and so is the power loop \<open>pow_arr\<close> that NumPy runs over an
  array. For an array NumPy computes \<open>** 2\<close> as the product of the array with itself
  (\<open>np.square\<close>) and only the other powers by the loop.
\<close>

definition np_power :: "(float64 \<Rightarrow> nat \<Rightarrow> float64) \<Rightarrow> float64 \<Rightarrow> nat \<Rightarrow> float64" where
  "np_power pow_arr a n = (if n = 2 then fmul a a else pow_arr a n)"

text \<open>
  The correctly rounded \<open>exp\<close> and \<open>pow\<close>. They stand for \<open>exp_impl\<close> and \<open>pow_impl\<close> where
  a function is evaluated at a concrete input; no statement with a free \<open>exp_impl\<close> or
  \<open>pow_impl\<close> depends on them.
\<close>

primrec exp64 :: "float64 \<Rightarrow> float64" where
  "exp64 (Fin a) = round64 (exp a)"
| "exp64 PInf = PInf"
| "exp64 NInf = Fin 0"
| "exp64 NaN = NaN"

primrec pow64 :: "float64 \<Rightarrow> nat \<Rightarrow> float64" where
  "pow64 (Fin a) n = round64 (a ^ n)"
| "pow64 PInf n = (if n = 0 then Fin 1 else PInf)"
| "pow64 NInf n = (if n = 0 then Fin 1 else if even n then PInf else NInf)"
| "pow64 NaN n = (if n = 0 then Fin 1 else NaN)"

section \<open>The notebook's functions in binary64\<close>



text \<open>
  The three partials at one element. \<open>pw\<close> is the power applied to \<open>sigma\<close>: \<open>pow_impl\<close>
  when \<open>sigma\<close> is a scalar, \<open>np_power pow_arr\<close> when it is an array.
\<close>

definition gaussian_partial_I_f64_at ::
    "(float64 \<Rightarrow> float64) \<Rightarrow> (float64 \<Rightarrow> nat \<Rightarrow> float64) \<Rightarrow>
       float64 \<Rightarrow> float64 \<Rightarrow> float64 \<Rightarrow> float64 \<Rightarrow> float64" where
  "gaussian_partial_I_f64_at exp_impl pw x I mu sigma =
     (let diff = fsub x mu;
          dist = fmul diff diff;
          exponential =
            exp_impl (fdiv (fneg dist) (fadd (fmul (Fin 2) (pw sigma 2)) eps64));
          amplitude =
            fdiv (fsign I) (fadd (fmul (fsqrt (fmul (Fin 2) pi64)) sigma) eps64)
      in fmul amplitude exponential)"

definition gaussian_partial_mu_f64_at ::
    "(float64 \<Rightarrow> float64) \<Rightarrow> (float64 \<Rightarrow> nat \<Rightarrow> float64) \<Rightarrow>
       float64 \<Rightarrow> float64 \<Rightarrow> float64 \<Rightarrow> float64 \<Rightarrow> float64" where
  "gaussian_partial_mu_f64_at exp_impl pw x I mu sigma =
     (let diff = fsub x mu;
          dist = fmul diff diff;
          exponential =
            exp_impl (fdiv (fneg dist) (fadd (fmul (Fin 2) (pw sigma 2)) eps64));
          amplitude =
            fdiv (fmul I (fsub x mu)) (fmul (fsqrt (fmul (Fin 2) pi64)) (pw sigma 3))
      in fmul amplitude exponential)"

definition gaussian_partial_sigma_f64_at ::
    "(float64 \<Rightarrow> float64) \<Rightarrow> (float64 \<Rightarrow> nat \<Rightarrow> float64) \<Rightarrow>
       float64 \<Rightarrow> float64 \<Rightarrow> float64 \<Rightarrow> float64 \<Rightarrow> float64" where
  "gaussian_partial_sigma_f64_at exp_impl pw x I mu sigma =
     (let diff = fsub x mu;
          dist = fmul diff diff;
          exponential =
            exp_impl (fdiv (fneg dist) (fadd (fmul (Fin 2) (pw sigma 2)) eps64));
          amplitude =
            fdiv
              (fmul I (fsub (fdiv (fmul (fsub x mu) (fsub x mu)) (pw sigma 2)) (Fin 1)))
              (fadd (fmul (fsqrt (fmul (Fin 2) pi64)) (pw sigma 2)) eps64)
      in fmul amplitude exponential)"

type_synonym row64 = "float64 \<times> float64 \<times> float64"

definition row64_map :: "(float64 \<Rightarrow> float64) \<Rightarrow> row64 \<Rightarrow> row64" where
  "row64_map f r = (case r of (a, b, c) \<Rightarrow> (f a, f b, f c))"

definition row64_map2 :: "(float64 \<Rightarrow> float64 \<Rightarrow> float64) \<Rightarrow> row64 \<Rightarrow> row64 \<Rightarrow> row64" where
  "row64_map2 f r s = (case (r, s) of ((a, b, c), (a', b', c')) \<Rightarrow> (f a a', f b b', f c c'))"

text \<open>
  \<open>gaussian_gradient\<close>: without a direction the parameters are scalars; with a direction
  they are the arrays \<open>np.ones_like(x) * I + direction_vector[:, 0]\<close> and so on.
\<close>

definition gaussian_gradient_f64 ::
    "(float64 \<Rightarrow> float64) \<Rightarrow> (float64 \<Rightarrow> nat \<Rightarrow> float64) \<Rightarrow> (float64 \<Rightarrow> nat \<Rightarrow> float64) \<Rightarrow>
       float64 list \<Rightarrow> float64 \<Rightarrow> float64 \<Rightarrow> float64 \<Rightarrow> row64 list option \<Rightarrow>
       py_error + row64 list" where
  "gaussian_gradient_f64 exp_impl pow_impl pow_arr x I mu sigma direction_vector =
     (case direction_vector of
        None \<Rightarrow>
          (let partial_I = map (\<lambda>xj. gaussian_partial_I_f64_at exp_impl pow_impl xj I mu sigma) x;
               partial_mu = map (\<lambda>xj. gaussian_partial_mu_f64_at exp_impl pow_impl xj I mu sigma) x;
               partial_sigma =
                 map (\<lambda>xj. gaussian_partial_sigma_f64_at exp_impl pow_impl xj I mu sigma) x
           in Inr (zip partial_I (zip partial_mu partial_sigma)))
      | Some dv \<Rightarrow>
          (let I_arr = map (\<lambda>_. fmul (Fin 1) I) x;
               mu_arr = map (\<lambda>_. fmul (Fin 1) mu) x;
               sigma_arr = map (\<lambda>_. fmul (Fin 1) sigma) x;
               I_dir = map fst dv;
               m_dir = map (\<lambda>r. fst (snd r)) dv;
               s_dir = map (\<lambda>r. snd (snd r)) dv;
               pw = np_power pow_arr
           in bind_err (np_broadcast fadd I_arr I_dir) (\<lambda>Ip.
              bind_err (np_broadcast fadd mu_arr m_dir) (\<lambda>mp.
              bind_err (np_broadcast fadd sigma_arr s_dir) (\<lambda>sp.
              bind_err (np_elementwise4 (gaussian_partial_I_f64_at exp_impl pw) x Ip mp sp)
                (\<lambda>partial_I.
              bind_err (np_elementwise4 (gaussian_partial_mu_f64_at exp_impl pw) x Ip mp sp)
                (\<lambda>partial_mu.
              bind_err (np_elementwise4 (gaussian_partial_sigma_f64_at exp_impl pw) x Ip mp sp)
                (\<lambda>partial_sigma.
              Inr (zip partial_I (zip partial_mu partial_sigma))))))))))"

text \<open>\<open>hessian_product\<close>: \<open>(fx_ed - fx) / epsilon\<close>.\<close>

definition hessian_product_f64 ::
    "(float64 \<Rightarrow> float64) \<Rightarrow> (float64 \<Rightarrow> nat \<Rightarrow> float64) \<Rightarrow> (float64 \<Rightarrow> nat \<Rightarrow> float64) \<Rightarrow>
       float64 list \<Rightarrow> float64 \<Rightarrow> float64 \<Rightarrow> float64 \<Rightarrow> row64 list \<Rightarrow> float64 \<Rightarrow>
       py_error + row64 list" where
  "hessian_product_f64 exp_impl pow_impl pow_arr x I mu sigma direction_vector epsilon =
     bind_err (gaussian_gradient_f64 exp_impl pow_impl pow_arr x I mu sigma
                 (Some (map (row64_map (fmul epsilon)) direction_vector))) (\<lambda>fx_ed.
     bind_err (gaussian_gradient_f64 exp_impl pow_impl pow_arr x I mu sigma None) (\<lambda>fx.
     bind_err (np_broadcast (row64_map2 fsub) fx_ed fx) (\<lambda>d.
     Inr (map (row64_map (\<lambda>v. fdiv v epsilon)) d))))"




primrec is_float64 :: "float64 \<Rightarrow> bool" where
  "is_float64 (Fin v) = (round64 v = Fin v)"
| "is_float64 PInf = True"
| "is_float64 NInf = True"
| "is_float64 NaN = True"

definition gradient_row_f64 ::
    "(float64 \<Rightarrow> float64) \<Rightarrow> (float64 \<Rightarrow> nat \<Rightarrow> float64) \<Rightarrow>
       float64 \<Rightarrow> float64 \<Rightarrow> float64 \<Rightarrow> float64 \<Rightarrow> row64" where
  "gradient_row_f64 exp_impl pw x I mu sigma =
     (gaussian_partial_I_f64_at exp_impl pw x I mu sigma,
      gaussian_partial_mu_f64_at exp_impl pw x I mu sigma,
      gaussian_partial_sigma_f64_at exp_impl pw x I mu sigma)"

primrec zero_or_nan :: "float64 \<Rightarrow> float64" where
  "zero_or_nan (Fin v) = Fin 0"
| "zero_or_nan PInf = NaN"
| "zero_or_nan NInf = NaN"
| "zero_or_nan NaN = NaN"

section \<open>Facts about the numeric model\<close>

lemma np_add_simps [simp]:
  "np_add (Some u) (Some v) = Some (u + v)"
  "np_add None b = None"
  "np_add a None = None"
  by (simp_all add: np_add_def split: option.splits)

lemma np_sub_simps [simp]:
  "np_sub (Some u) (Some v) = Some (u - v)"
  "np_sub None b = None"
  "np_sub a None = None"
  by (simp_all add: np_sub_def split: option.splits)

lemma np_mul_simps [simp]:
  "np_mul (Some u) (Some v) = Some (u * v)"
  "np_mul None b = None"
  "np_mul a None = None"
  by (simp_all add: np_mul_def split: option.splits)

lemma np_divide_simps [simp]:
  "np_divide (Some u) (Some v) = (if v = 0 then None else Some (u / v))"
  "np_divide None b = None"
  "np_divide a None = None"
  by (simp_all add: np_divide_def split: option.splits)

lemma np_unary_simps [simp]:
  "np_neg (Some u) = Some (- u)" "np_neg None = None"
  "np_pow (Some u) n = Some (u ^ n)" "np_pow None n = None"
  "np_exp (Some u) = Some (exp u)" "np_exp None = None"
  "np_abs (Some u) = Some \<bar>u\<bar>" "np_abs None = None"
  "np_sign (Some u) = Some (sgn u)" "np_sign None = None"
  by (simp_all add: np_neg_def np_pow_def np_exp_def np_abs_def np_sign_def)

lemma eps_pos: "0 < eps"
  by (simp add: eps_def)

lemma exp_denominator_pos: "0 < 2 * sigma\<^sup>2 + eps"
  using eps_pos by (simp add: add_nonneg_pos)

lemma exp_denominator_nonzero [simp]: "2 * sigma\<^sup>2 + eps \<noteq> 0"
  using exp_denominator_pos [of sigma] by simp

lemma sqrt_2pi_pos: "0 < sqrt (2 * pi)"
  by simp

lemma gaussian_at_Some:
  "gaussian_at (Some x) (Some I) (Some mu) (Some sigma) =
     (if sqrt (2 * pi) * sigma + eps = 0 then None
      else Some (\<bar>I\<bar> / (sqrt (2 * pi) * sigma + eps) *
                 exp (- (x - mu)\<^sup>2 / (2 * sigma\<^sup>2 + eps))))"
  by (simp add: gaussian_at_def Let_def)

lemma amplitude_denominator_pos: "0 \<le> sigma \<Longrightarrow> 0 < sqrt (2 * pi) * sigma + eps"
  using eps_pos by (simp add: add_nonneg_pos)

lemma eps_add_nonzero: "0 \<le> c \<Longrightarrow> c + eps \<noteq> 0"
  using eps_pos by (simp add: add_nonneg_eq_0_iff)

lemma sigma_denominator_nonzero [simp]: "sqrt (2 * pi) * sigma\<^sup>2 + eps \<noteq> 0"
  using amplitude_denominator_pos [of "sigma\<^sup>2"] by simp

section \<open>Facts about arrays and exceptions\<close>

lemma bind_err_simps [simp]:
  "bind_err (Inr v) f = f v"
  "bind_err (Inl e) f = Inl e"
  by (simp_all add: bind_err_def)

lemma np_broadcast_same_length:
  "length xs = length ys \<Longrightarrow> np_broadcast f xs ys = Inr (map2 f xs ys)"
  by (simp add: np_broadcast_def)

lemma np_elementwise4_same_length:
  assumes "length I = length x" "length mu = length x" "length sigma = length x"
  shows "np_elementwise4 f x I mu sigma =
           Inr (map (\<lambda>(xj, Ij, mj, sj). f xj Ij mj sj) (zip x (zip I (zip mu sigma))))"
  using assms
proof (induction x arbitrary: I mu sigma)
  case Nil
  then show ?case by (simp add: np_elementwise4_def np_broadcast_def)
next
  case (Cons a x)
  then obtain i I' m mu' s sigma' where
    "I = i # I'" "mu = m # mu'" "sigma = s # sigma'"
    by (metis length_Suc_conv)
  with Cons show ?case
    by (simp add: np_elementwise4_def np_broadcast_same_length)
qed

lemma zip3_map:
  "zip (map f xs) (zip (map g xs) (map h xs)) = map (\<lambda>x. (f x, g x, h x)) xs"
  by (induction xs) simp_all

lemma map_upt_nth: "length xs = N \<Longrightarrow> map (\<lambda>i. f (xs ! i)) [0..<N] = map f xs"
  by (auto intro: nth_equalityI)

lemma np_dot3_finite [simp]: "np_dot3 (finite_row r) (finite_row s) = Some (dot3 r s)"
  by (cases r; cases s) (simp add: np_dot3_def finite_row_def dot3_def)

lemma np_dot3_params [simp]:
  "np_dot3 (finite_row r) (Some p1, Some p2, Some p3) = Some (dot3 r (p1, p2, p3))"
  by (cases r) (simp add: np_dot3_def finite_row_def dot3_def)

section \<open>Facts about the helper functions\<close>

lemma gaussian_gradient_None:
  "gaussian_gradient x I mu sigma None =
     Inr (map (\<lambda>xj. gradient_row (Some xj) (Some I) (Some mu) (Some sigma)) x)"
  by (induction x) (simp_all add: gaussian_gradient_def gradient_row_def Let_def)

lemma gaussian_gradient_Some:
  assumes "length dv = length x"
  shows "gaussian_gradient x I mu sigma (Some dv) =
     Inr (map2 (\<lambda>xj (dI, dm, ds).
                  gradient_row (Some xj) (np_add (Some I) dI) (np_add (Some mu) dm)
                    (np_add (Some sigma) ds)) x dv)"
proof -
  let ?xs = "map Some x"
  let ?Ip = "map2 np_add (map (\<lambda>_. Some (1 * I)) x) (map fst dv)"
  let ?mp = "map2 np_add (map (\<lambda>_. Some (1 * mu)) x) (map (\<lambda>r. fst (snd r)) dv)"
  let ?sp = "map2 np_add (map (\<lambda>_. Some (1 * sigma)) x) (map (\<lambda>r. snd (snd r)) dv)"
  let ?Z = "zip ?xs (zip ?Ip (zip ?mp ?sp))"
  have len: "length ?Ip = length ?xs" "length ?mp = length ?xs" "length ?sp = length ?xs"
    using assms by simp_all
  have Z: "?Z = map2 (\<lambda>xj (dI, dm, ds).
                 (Some xj, np_add (Some I) dI, np_add (Some mu) dm, np_add (Some sigma) ds)) x dv"
    using assms [symmetric]
    by (induction x dv rule: list_induct2) (simp_all split: prod.splits)
  have "gaussian_gradient x I mu sigma (Some dv) =
          Inr (map (\<lambda>(xj, Ij, mj, sj). gradient_row xj Ij mj sj) ?Z)"
    unfolding gaussian_gradient_def Let_def option.case
    using assms
    apply (simp only: np_broadcast_same_length length_map bind_err_simps
          np_elementwise4_same_length [OF len] zip3_map gradient_row_def)
    apply (simp only: case_prod_unfold)
    done
  also have "map (\<lambda>(xj, Ij, mj, sj). gradient_row xj Ij mj sj) ?Z =
     map2 (\<lambda>xj (dI, dm, ds).
                  gradient_row (Some xj) (np_add (Some I) dI) (np_add (Some mu) dm)
                    (np_add (Some sigma) ds)) x dv"
    unfolding Z by (simp add: case_prod_beta)
  finally show ?thesis .
qed

lemma gaussian_gradient_scaled:
  assumes "length d = length x"
  shows "gaussian_gradient x I mu sigma (Some (map (row_map (np_mul (Some epsilon))) d)) =
     Inr (map2 (\<lambda>xj (dI, dm, ds).
                  gradient_row (Some xj)
                    (np_add (Some I) (np_mul (Some epsilon) dI))
                    (np_add (Some mu) (np_mul (Some epsilon) dm))
                    (np_add (Some sigma) (np_mul (Some epsilon) ds))) x d)"
  using assms
  by (simp add: gaussian_gradient_Some zip_map2 row_map_def case_prod_unfold)

lemma pointwise_dotproduct_rows:
  assumes "length v \<le> length h"
  shows "pointwise_dotproduct v h = Inr (map (\<lambda>i. np_dot3 (v ! i) (h ! i)) [0..<length v])"
  using assms by (simp add: pointwise_dotproduct_def Let_def)

lemma pointwise_dotproduct_finite:
  assumes "length V = N" "length W = N"
  shows "pointwise_dotproduct (finite_block V) (finite_block W) =
           Inr (map (\<lambda>i. Some (dot3 (V ! i) (W ! i))) [0..<N])"
  using assms by (simp add: pointwise_dotproduct_rows finite_block_def)

lemma get_alpha_finite:
  assumes "length G = N" "length H = N" "length D = N"
  shows "get_alpha [p1, p2, p3] (finite_block G) (finite_block H) (finite_block D) =
           Inr (map (\<lambda>j. if dot3 (D ! j) (H ! j) + eps = 0 then None
                          else Some (- (dot3 (H ! j) (p1, p2, p3) + dot3 (D ! j) (G ! j)) /
                                       (dot3 (D ! j) (H ! j) + eps)))
                  [0..<N])"
proof -
  have term1: "np_dot_block_vec (finite_block H) [p1, p2, p3] =
                 Inr (map (\<lambda>j. Some (dot3 (H ! j) (p1, p2, p3))) [0..<N])"
    using assms(2) map_upt_nth [of H N "\<lambda>r. Some (dot3 r (p1, p2, p3))"]
    by (simp add: np_dot_block_vec_def finite_block_def comp_def)
  show ?thesis
    using assms
    by (simp add: get_alpha_def Let_def term1 pointwise_dotproduct_finite
          np_broadcast_same_length zip_same_conv_map map_zip_map2 comp_def zip_map2 zip_map1)
qed

lemma get_beta_finite:
  assumes "length G = N" "length H = N" "length D = N"
  shows "get_beta (finite_block G) (finite_block H) (finite_block D) =
           Inr (map (\<lambda>j. if dot3 (D ! j) (H ! j) = 0 then None
                          else Some (dot3 (G ! j) (H ! j) / dot3 (D ! j) (H ! j)))
                  [0..<N])"
  using assms
  by (simp add: get_beta_def pointwise_dotproduct_finite np_broadcast_same_length
        zip_same_conv_map map_zip_map2 comp_def zip_map2 zip_map1)

lemma hessian_product_rows:
  assumes "length d = length x"
  shows "\<exists>h. hessian_product x I mu sigma d epsilon = Inr h \<and> length h = length x"
  using assms
  by (simp add: hessian_product_def gaussian_gradient_scaled gaussian_gradient_None
        np_broadcast_same_length)

lemma get_alpha_rows:
  assumes "length G = N" "length H = N" "length D = N"
  shows "\<exists>alpha. get_alpha [p1, p2, p3] G H D = Inr alpha \<and> length alpha = N"
  using assms
  by (simp add: get_alpha_def np_dot_block_vec_def Let_def pointwise_dotproduct_rows
        np_broadcast_same_length)

section \<open>Facts about the main algorithm\<close>

lemma multiple_gaussians_loop_bad_length:
  assumes "length params mod 3 \<noteq> 0"
  shows "\<exists>out. multiple_gaussians_loop x params acc = Inl (IndexError, out) \<and>
           multiple_gaussians_loop x (take (3 * (length params div 3)) params) acc = Inr out"
  using assms
proof (induction x params acc rule: multiple_gaussians_loop.induct)
  case (4 x a b c rest output_result)
  have len: "length (a # b # c # rest) = length rest + 3" by simp
  have m: "length (a # b # c # rest) mod 3 = length rest mod 3"
    unfolding len by (simp only: mod_add_self2)
  have d: "length (a # b # c # rest) div 3 = Suc (length rest div 3)"
    unfolding len by linarith
  from 4 m have "length rest mod 3 \<noteq> 0" by simp
  from "4.IH" [OF this] obtain out where
    "multiple_gaussians_loop x rest (map2 np_add output_result (gaussian x a b c)) =
       Inl (IndexError, out)"
    "multiple_gaussians_loop x (take (3 * (length rest div 3)) rest)
       (map2 np_add output_result (gaussian x a b c)) = Inr out"
    by blast
  moreover have "take (3 * (length (a # b # c # rest) div 3)) (a # b # c # rest) =
                   a # b # c # take (3 * (length rest div 3)) rest"
    unfolding d by (simp add: take_Cons')
  ultimately show ?case by simp
qed simp_all

lemma multiple_gaussians_loop_good_length:
  assumes "length params mod 3 = 0"
  shows "\<exists>out. multiple_gaussians_loop x params acc = Inr out"
  using assms
proof (induction x params acc rule: multiple_gaussians_loop.induct)
  case (4 x a b c rest output_result)
  have "length (a # b # c # rest) = length rest + 3" by simp
  then have "length (a # b # c # rest) mod 3 = length rest mod 3"
    by (simp only: mod_add_self2)
  with 4 show ?case by simp
qed simp_all

lemma range3_pos:
  assumes "0 < (n::nat)"
  shows "0 < (n + 2) div 3"
  using assms by linarith

lemma range3_nonempty:
  assumes "0 < n"
  shows "range3 n = 0 # map (\<lambda>k. 3 * k) [Suc 0..<(n + 2) div 3]"
proof -
  have "[0..<(n + 2) div 3] = 0 # [Suc 0..<(n + 2) div 3]"
    using range3_pos [OF assms] by (rule upt_conv_Cons)
  then show ?thesis
    by (simp only: range3_def list.map mult_0_right)
qed

lemma list_dirvecs_cases:
  "list_dirvecs x start_params = (if start_params = [] then Inr [] else Inl TypeError)"
proof (cases "start_params = []")
  case True
  then show ?thesis by (simp add: list_dirvecs_def range3_def)
next
  case False
  then have "0 < length start_params" by simp
  from range3_nonempty [OF this] False show ?thesis
    by (simp only: list_dirvecs_def list_dirvecs_loop.simps unpack_int_def bind_err_simps
          if_False)
qed

lemma bind_err_raises:
  assumes "\<And>v. \<exists>e. f v = Inl e"
  shows "\<exists>e. bind_err m f = Inl e"
  using assms by (cases m) simp_all

lemma single_iter_raises: "\<exists>e. single_iter x attempt dir_vec = Inl e"
  unfolding single_iter_def
  by (rule bind_err_raises, rule bind_err_raises, rule bind_err_raises,
      rule bind_err_raises, rule bind_err_raises) (simp add: call_get_beta_4_def)

lemma single_iter_TypeError:
  assumes "length dir_vec = length x"
  shows "single_iter x [I, mu, sigma] dir_vec = Inl TypeError"
proof -
  obtain g where g: "gaussian_gradient x I mu sigma None = Inr g" "length g = length x"
    by (simp add: gaussian_gradient_None)
  obtain h where h: "hessian_product x I mu sigma g (1 / 10 ^ 5) = Inr h" "length h = length x"
    using hessian_product_rows [OF g(2)] by blast
  obtain alpha where a: "get_alpha [I, mu, sigma] g h dir_vec = Inr alpha" "length alpha = length x"
    using get_alpha_rows [OF g(2) h(2) assms] by blast
  show ?thesis
    using g h a assms
    by (simp add: single_iter_def call_gaussian_gradient_def call_hessian_product_def
          np_dot_vec_block_def np_broadcast_same_length call_get_beta_4_def)
qed

lemma while_switch_result:
  assumes "while_switch s x a p = Some r"
  shows "loop_outcome s x a p r"
proof -
  have "(case (((s, x), a), p) of
           (u, p') \<Rightarrow> (case u of (v, a') \<Rightarrow> (case v of (s', x') \<Rightarrow> loop_outcome s' x') a') p') r"
  proof (rule while_switch.raw_induct [where P = loop_outcome])
    show "(case (((s, x), a), p) of
             (u, p') \<Rightarrow> (case u of (v, a') \<Rightarrow> (case v of (s', x') \<Rightarrow> while_switch s' x') a') p') =
          Some r"
      using assms by simp
  next
    fix f :: "bool \<Rightarrow> real list \<Rightarrow> real list list \<Rightarrow> block list \<Rightarrow> (py_error + unit) option"
    fix sw x a p r
    assume IH: "\<And>x a p b y. f x a p b = Some y \<Longrightarrow> loop_outcome x a p b y"
      and eq: "(if sw then case for_each_peak x (zip a p) of Inl e \<Rightarrow> Some (Inl e)
                                  | Inr _ \<Rightarrow> f sw x a p
                else Some (Inr ())) = Some r"
    show "loop_outcome sw x a p r"
    proof (cases sw)
      case False
      with eq show ?thesis by (simp add: loop_outcome_def)
    next
      case True
      show ?thesis
      proof (cases "for_each_peak x (zip a p)")
        case (Inl e)
        with True eq show ?thesis by (auto simp add: loop_outcome_def)
      next
        case (Inr u)
        with True eq have "f True x a p = Some r" by simp
        from IH [OF this] show ?thesis using True by simp
      qed
    qed
  qed
  then show ?thesis by simp
qed

lemma while_switch_diverges:
  assumes "for_each_peak x (zip attempts prev_dirvecs) = Inr u"
  shows "while_switch True x attempts prev_dirvecs = None"
proof (cases "while_switch True x attempts prev_dirvecs")
  case None
  then show ?thesis .
next
  case (Some r)
  from while_switch_result [OF this] have "isl (for_each_peak x (zip attempts prev_dirvecs))"
    by (simp add: loop_outcome_def)
  with assms show ?thesis by simp
qed

lemma conjugate_gradient_cases:
  "conjugate_gradient x y start_params =
     (if start_params = [] then None else Some (Inl TypeError))"
proof (cases "start_params = []")
  case True
  have "conjugate_gradient x y [] = while_switch True x [] []"
    by (simp add: conjugate_gradient_def list_dirvecs_cases range3_def)
  also have "\<dots> = None"
    by (rule while_switch_diverges [where u = "()"]) simp
  finally show ?thesis using True by simp
next
  case False
  then show ?thesis by (simp add: conjugate_gradient_def list_dirvecs_cases)
qed

section \<open>Facts about binary64 arithmetic\<close>

lemma round_half_even_error: "\<bar>of_int (round_half_even y) - y\<bar> \<le> 1 / 2"
  unfolding round_half_even_def Let_def by (auto simp add: abs_le_iff)

lemma round_half_even_of_int [simp]: "round_half_even (of_int m) = m"
  by (simp add: round_half_even_def)



lemma round_half_even_small: "\<bar>y\<bar> < 1 / 2 \<Longrightarrow> round_half_even y = 0"
proof -
  assume a: "\<bar>y\<bar> < 1 / 2"
  have e: "\<bar>of_int (round_half_even y) - y\<bar> \<le> 1 / 2" by (rule round_half_even_error)
  have "\<bar>real_of_int (round_half_even y)\<bar> < 1" using a e by linarith
  then show ?thesis by linarith
qed

lemma round_half_even_minus: "round_half_even (- y) = - round_half_even y"
proof (cases "y = of_int \<lfloor>y\<rfloor>")
  case True
  then obtain n :: int where "y = of_int n" ..
  then have "- y = of_int (- n)" by simp
  then show ?thesis using \<open>y = of_int n\<close> by (simp only: round_half_even_of_int)
next
  case False
  define f where "f = \<lfloor>y\<rfloor>"
  have lt: "of_int f < y" "y < of_int f + 1"
    using False unfolding f_def by linarith+
  have fl: "\<lfloor>- y\<rfloor> = - f - 1"
    using lt by (simp add: floor_unique)
  have ev: "even (- f - 1) \<longleftrightarrow> odd f" by simp
  show ?thesis
    unfolding round_half_even_def Let_def fl f_def [symmetric]
    using lt ev by (auto simp add: field_simps)
qed

lemma binade_normal:
  assumes "2 powr of_int e \<le> \<bar>x\<bar>" "\<bar>x\<bar> < 2 powr of_int (e + 1)" "- 1022 \<le> e"
  shows "binade x = e"
proof -
  have "(0::real) < 2 powr of_int e" by simp
  with assms(1) have pos: "0 < \<bar>x\<bar>" by linarith
  have "\<lfloor>log 2 \<bar>x\<bar>\<rfloor> = e"
    using assms(1,2) floor_log_eq_powr_iff [OF pos, of 2 e] by simp
  then show ?thesis using assms(3) by (simp add: binade_def)
qed

lemma binade_bounds:
  assumes "2 powr (- 1022) \<le> \<bar>x\<bar>"
  shows "2 powr of_int (binade x) \<le> \<bar>x\<bar>" "- 1022 \<le> binade x"
proof -
  have "(0::real) < 2 powr (- 1022)" by simp
  with assms have pos: "0 < \<bar>x\<bar>" by linarith
  let ?e = "\<lfloor>log 2 \<bar>x\<bar>\<rfloor>"
  have "2 powr of_int ?e \<le> \<bar>x\<bar>"
    using floor_log_eq_powr_iff [OF pos, of 2 ?e] by simp
  moreover have "- 1022 \<le> ?e"
  proof -
    have "real_of_int (- 1022) \<le> log 2 \<bar>x\<bar>"
      using assms pos by (simp add: le_log_iff)
    then show ?thesis by (simp add: le_floor_iff)
  qed
  moreover have "binade x = ?e"
    using \<open>- 1022 \<le> ?e\<close> by (simp add: binade_def)
  ultimately show "2 powr of_int (binade x) \<le> \<bar>x\<bar>" "- 1022 \<le> binade x"
    by simp_all
qed

lemma binade_minus [simp]: "binade (- x) = binade x"
  by (simp add: binade_def)

lemma round64_zero [simp]: "round64 0 = Fin 0"
  by (simp add: round64_def)

lemma round64_unfold:
  assumes "x \<noteq> 0" "q = 2 powr of_int (binade x - 52)"
    "r = q * of_int (round_half_even (x / q))"
  shows "round64 x = (if 2 ^ 1024 \<le> \<bar>r\<bar> then (if 0 < x then PInf else NInf) else Fin r)"
  using assms unfolding round64_def Let_def by simp

lemma round64_minus: "round64 (- x) = fneg (round64 x)"
proof (cases "x = 0")
  case True
  then show ?thesis by simp
next
  case False
  define q :: real where "q = 2 powr of_int (binade x - 52)"
  define r where "r = q * of_int (round_half_even (x / q))"
  have q': "q = 2 powr of_int (binade (- x) - 52)" by (simp add: q_def)
  have r': "- r = q * of_int (round_half_even (- x / q))"
    by (simp add: r_def round_half_even_minus)
  have nx: "- x \<noteq> 0" using False by simp
  show ?thesis
    unfolding round64_unfold [OF False q_def r_def] round64_unfold [OF nx q' r']
    using False by auto
qed

text \<open>In the normal range the relative error of a rounding is at most \<open>2 ^ - 53\<close>.\<close>

lemma round64_relative_error:
  assumes lo: "2 powr (- 1022) \<le> \<bar>x\<bar>" and hi: "\<bar>x\<bar> \<le> 2 ^ 1023"
  shows "\<exists>r. round64 x = Fin r \<and> \<bar>r - x\<bar> \<le> \<bar>x\<bar> / 2 ^ 53"
proof -
  have "(0::real) < 2 powr (- 1022)" by simp
  with lo have x0: "x \<noteq> 0" by auto
  define q :: real where "q = 2 powr of_int (binade x - 52)"
  define r where "r = q * of_int (round_half_even (x / q))"
  have q0: "0 < q" by (simp add: q_def)
  have "q = 2 powr of_int (binade x) * 2 powr (- 52)"
    by (simp add: q_def powr_diff powr_minus field_simps)
  also have "\<dots> \<le> \<bar>x\<bar> * 2 powr (- 52)"
    using binade_bounds(1) [OF lo] by (simp add: mult_right_mono)
  finally have q_le: "q \<le> \<bar>x\<bar> / 2 ^ 52"
    by (simp add: powr_neg_numeral)
  have "r - x = q * (of_int (round_half_even (x / q)) - x / q)"
    using q0 by (simp add: r_def field_simps)
  then have "\<bar>r - x\<bar> = q * \<bar>of_int (round_half_even (x / q)) - x / q\<bar>"
    using q0 by (simp add: abs_mult)
  also have "\<dots> \<le> q * (1 / 2)"
    using q0 round_half_even_error [of "x / q"] by (intro mult_left_mono) simp_all
  also have "\<dots> \<le> \<bar>x\<bar> / 2 ^ 53"
    using q_le by simp
  finally have err: "\<bar>r - x\<bar> \<le> \<bar>x\<bar> / 2 ^ 53" .
  have "\<bar>r\<bar> \<le> \<bar>x\<bar> + \<bar>x\<bar> / 2 ^ 53" using err by linarith
  also have "\<dots> \<le> 2 ^ 1023 + 2 ^ 1023 / 2 ^ 53"
    using hi by (intro add_mono divide_right_mono) simp_all
  also have "\<dots> < (2::real) ^ 1024" by simp
  finally have "\<not> 2 ^ 1024 \<le> \<bar>r\<bar>" by simp
  then have "round64 x = Fin r"
    using round64_unfold [OF x0 q_def r_def] by simp
  with err show ?thesis by blast
qed



lemma round64_underflow:
  assumes "\<bar>x\<bar> < 2 powr (- 1075)"
  shows "round64 x = Fin 0"
proof (cases "x = 0")
  case True
  then show ?thesis by (simp add: round64_def)
next
  case False
  then have pos: "0 < \<bar>x\<bar>" by simp
  have "log 2 \<bar>x\<bar> < - 1075"
    using assms pos by (simp add: log_less_iff)
  then have "\<lfloor>log 2 \<bar>x\<bar>\<rfloor> < - 1022"
    by (simp add: floor_less_iff)
  then have bin: "binade x = - 1022" by (simp add: binade_def)
  define q :: real where "q = 2 powr (- 1074)"
  have q0: "0 < q" by (simp add: q_def)
  have "2 powr (- 1075) = q * (1 / 2)"
    by (simp add: q_def powr_neg_numeral)
  then have "\<bar>x / q\<bar> < 1 / 2"
    using assms q0 by (simp add: field_simps)
  then have "round_half_even (x / q) = 0" by (rule round_half_even_small)
  then show ?thesis
    using False by (simp add: round64_def Let_def bin q_def)
qed

text \<open>A number with a significand of 53 bits and an exponent in range is not rounded.\<close>

lemma round64_exact:
  assumes x: "x = of_int m * 2 powr of_int k"
    and m: "2 ^ 52 \<le> \<bar>m\<bar>" "\<bar>m\<bar> < 2 ^ 53"
    and k: "- 1074 \<le> k" "k \<le> 971"
  shows "round64 x = Fin x"
proof -
  have m0: "m \<noteq> 0" using m(1) by auto
  then have x0: "x \<noteq> 0" by (simp add: x)
  have absx: "\<bar>x\<bar> = of_int \<bar>m\<bar> * 2 powr of_int k" by (simp add: x abs_mult)
  have "(2::real) ^ 52 \<le> of_int \<bar>m\<bar>"
    using m(1) by (metis of_int_le_iff of_int_numeral of_int_power)
  then have lo: "2 powr of_int (k + 52) \<le> \<bar>x\<bar>"
    by (simp add: absx powr_add mult_right_mono mult.commute)
  have "of_int \<bar>m\<bar> < (2::real) ^ 53"
    using m(2) by (metis of_int_less_iff of_int_numeral of_int_power)
  then have hi: "\<bar>x\<bar> < 2 powr of_int (k + 52 + 1)"
    by (simp add: absx powr_add mult.commute)
  have bin: "binade x = k + 52"
    using lo hi k(1) by (intro binade_normal) simp_all
  define q :: real where "q = 2 powr of_int (binade x - 52)"
  define r where "r = q * of_int (round_half_even (x / q))"
  have q: "q = 2 powr of_int k" by (simp add: q_def bin)
  have "x / q = of_int m" by (simp add: x q)
  then have r: "r = x" by (simp add: r_def) (simp add: x q)
  have "\<bar>x\<bar> < 2 ^ 53 * 2 powr 971"
  proof -
    have "\<bar>x\<bar> < 2 ^ 53 * 2 powr of_int k"
      using \<open>of_int \<bar>m\<bar> < (2::real) ^ 53\<close> by (simp add: absx)
    also have "\<dots> \<le> 2 ^ 53 * 2 powr 971"
      using k(2) by (intro mult_left_mono powr_mono) simp_all
    finally show ?thesis .
  qed
  also have "\<dots> = (2::real) ^ 1024" by simp
  finally have "\<not> 2 ^ 1024 \<le> \<bar>r\<bar>" by (simp add: r)
  then have "round64 x = Fin r"
    using round64_unfold [OF x0 q_def r_def] by simp
  then show ?thesis by (simp add: r)
qed

lemma round64_power_of_two:
  assumes "n \<le> 1023"
  shows "round64 (2 ^ n) = Fin (2 ^ n)"
proof (rule round64_exact [where m = "2 ^ 52" and k = "int n - 52"])
  have "(2::real) powr of_int (int n - 52) = 2 powr real n / 2 powr 52"
    by (simp add: powr_diff)
  also have "\<dots> = 2 ^ n / 2 ^ 52"
    by (simp add: powr_realpow)
  finally show "(2::real) ^ n = of_int (2 ^ 52) * 2 powr of_int (int n - 52)"
    by simp
qed (use assms in simp_all)

lemma round64_inverse_power_of_two:
  assumes "n \<le> 1022"
  shows "round64 (1 / 2 ^ n) = Fin (1 / 2 ^ n)"
proof (rule round64_exact [where m = "2 ^ 52" and k = "- int n - 52"])
  have "(2::real) powr of_int (- int n - 52) = 2 powr (- real n) / 2 powr 52"
    by (simp add: powr_diff)
  also have "\<dots> = 1 / 2 ^ n / 2 ^ 52"
    by (simp add: powr_realpow powr_minus divide_simps)
  finally show "(1::real) / 2 ^ n = of_int (2 ^ 52) * 2 powr of_int (- int n - 52)"
    by simp
qed (use assms in simp_all)

lemma round64_one [simp]: "round64 1 = Fin 1"
  using round64_power_of_two [of 0] by simp

lemma round64_two [simp]: "round64 2 = Fin 2"
  using round64_power_of_two [of 1] by simp

lemma round64_three [simp]: "round64 3 = Fin 3"
proof (rule round64_exact [where m = "3 * 2 ^ 51" and k = "- 51"])
  have "(2::real) powr of_int (- 51) = 1 / 2 ^ 51"
    by (simp add: powr_neg_numeral)
  then show "(3::real) = of_int (3 * 2 ^ 51) * 2 powr of_int (- 51)" by simp
qed simp_all

lemma round64_minus_one [simp]: "round64 (- 1) = Fin (- 1)"
  using round64_minus [of 1] by simp



text \<open>Coarse enclosures, enough to separate or to bound the values met below.\<close>

lemma normal_range:
  fixes x lo hi :: real
  assumes "1 / 2 ^ 1000 \<le> lo" "lo \<le> \<bar>x\<bar>" "\<bar>x\<bar> \<le> hi" "hi \<le> 2 ^ 1000"
  shows "2 powr (- 1022) \<le> \<bar>x\<bar>" "\<bar>x\<bar> \<le> 2 ^ 1023"
proof -
  have "2 powr (- 1022) \<le> (1::real) / 2 ^ 1000"
    by (simp add: powr_neg_numeral field_simps)
  with assms show "2 powr (- 1022) \<le> \<bar>x\<bar>" by linarith
  have "(2::real) ^ 1000 \<le> 2 ^ 1023" by simp
  with assms show "\<bar>x\<bar> \<le> 2 ^ 1023" by linarith
qed

lemma tiny_positive: "(0::real) < 1 / 2 ^ 1000"
  by simp

lemma round64_range_abs:
  assumes "1 / 2 ^ 1000 \<le> lo" "lo \<le> \<bar>x\<bar>" "\<bar>x\<bar> \<le> hi" "hi \<le> 2 ^ 1000"
  shows "\<exists>r. round64 x = Fin r \<and> \<bar>r - x\<bar> \<le> \<bar>x\<bar> / 100"
proof -
  from normal_range [OF assms]
  have "2 powr (- 1022) \<le> \<bar>x\<bar>" "\<bar>x\<bar> \<le> 2 ^ 1023" by simp_all
  from round64_relative_error [OF this] obtain r where
    r: "round64 x = Fin r" "\<bar>r - x\<bar> \<le> \<bar>x\<bar> / 2 ^ 53" by blast
  have "\<bar>x\<bar> / 2 ^ 53 \<le> \<bar>x\<bar> / 100" by (intro divide_left_mono) simp_all
  with r show ?thesis by force
qed

lemma round64_range:
  assumes "1 / 2 ^ 1000 \<le> lo" "lo \<le> x" "x \<le> hi" "hi \<le> 2 ^ 1000"
  shows "\<exists>r. round64 x = Fin r \<and> lo * (99 / 100) \<le> r \<and> r \<le> hi * (101 / 100)"
proof -
  have x0: "0 < x" using assms(1,2) tiny_positive by linarith
  then have ax: "\<bar>x\<bar> = x" by simp
  from round64_range_abs [of lo x hi] assms ax obtain r where
    r: "round64 x = Fin r" "\<bar>r - x\<bar> \<le> x / 100" by auto
  from r(2) have "x - x / 100 \<le> r" "r \<le> x + x / 100" by linarith+
  moreover have "lo * (99 / 100) \<le> x - x / 100" using assms(2) by simp
  moreover have "x + x / 100 \<le> hi * (101 / 100)" using assms(3) by simp
  ultimately show ?thesis using r(1) by force
qed

lemma round64_range_neg:
  assumes "1 / 2 ^ 1000 \<le> lo" "lo \<le> - x" "- x \<le> hi" "hi \<le> 2 ^ 1000"
  shows "\<exists>r. round64 x = Fin r \<and> lo * (99 / 100) \<le> - r \<and> - r \<le> hi * (101 / 100)"
proof -
  define t where "t = - x"
  have t0: "0 < t" using assms(1,2) tiny_positive by (simp add: t_def)
  then have ax: "\<bar>x\<bar> = t" by (simp add: t_def)
  from round64_range_abs [of lo x hi] assms ax obtain r where
    r: "round64 x = Fin r" "\<bar>r - x\<bar> \<le> t / 100" by (auto simp add: t_def)
  have "r - x = r + t" by (simp add: t_def)
  with r(2) have "t - t / 100 \<le> - r" "- r \<le> t + t / 100" by linarith+
  moreover have "lo * (99 / 100) \<le> t - t / 100" using assms(2) by (simp add: t_def)
  moreover have "t + t / 100 \<le> hi * (101 / 100)" using assms(3) by (simp add: t_def)
  ultimately show ?thesis using r(1) by force
qed


lemma pi64_range: "\<exists>p. pi64 = Fin p \<and> 1 \<le> p \<and> p \<le> 5"
proof -
  have "1 / 2 ^ 1000 \<le> (2::real)" "(2::real) \<le> pi" "pi \<le> 4" "(4::real) \<le> 2 ^ 1000"
    using pi_ge_two pi_less_4 by simp_all
  from round64_range [OF this] show ?thesis
    unfolding pi64_def by force
qed

lemma sqrt_2pi64_range: "\<exists>c. fsqrt (fmul (Fin 2) pi64) = Fin c \<and> 9 / 10 \<le> c \<and> c \<le> 5"
proof -
  obtain p where p: "pi64 = Fin p" "1 \<le> p" "p \<le> 5" using pi64_range by blast
  have "1 / 2 ^ 1000 \<le> (2::real)" "2 \<le> 2 * p" "2 * p \<le> 10" "(10::real) \<le> 2 ^ 1000"
    using p by simp_all
  from round64_range [OF this] obtain t where
    t: "round64 (2 * p) = Fin t" "1 \<le> t" "t \<le> 11" by force
  have "sqrt 1 \<le> sqrt t" "sqrt t \<le> sqrt 16"
    using t by (simp_all only: real_sqrt_le_iff)
  then have "1 / 2 ^ 1000 \<le> (1::real)" "1 \<le> sqrt t" "sqrt t \<le> 4" "(4::real) \<le> 2 ^ 1000"
    by simp_all
  from round64_range [OF this] obtain c where
    c: "round64 (sqrt t) = Fin c" "9 / 10 \<le> c" "c \<le> 5" by force
  have "fmul (Fin 2) pi64 = Fin t"
    unfolding p(1) using t(1) by simp
  moreover have "\<not> t < 0" using t(2) by simp
  ultimately have "fsqrt (fmul (Fin 2) pi64) = Fin c"
    using c(1) by simp
  with c show ?thesis by blast
qed

lemma eps64_range: "\<exists>e. eps64 = Fin e \<and> 1 / 2 ^ 40 \<le> e \<and> e \<le> 1 / 2 ^ 30"
proof -
  have "1 / 2 ^ 1000 \<le> (1::real) / 10 ^ 11" "(1::real) / 10 ^ 11 \<le> 1 / 10 ^ 11"
    "(1::real) / 10 ^ 11 \<le> 1 / 10 ^ 11" "(1::real) / 10 ^ 11 \<le> 2 ^ 1000"
    by simp_all
  from round64_range [OF this] obtain e where
    e: "round64 (1 / 10 ^ 11) = Fin e" "1 / 10 ^ 11 * (99 / 100) \<le> e"
      "e \<le> 1 / 10 ^ 11 * (101 / 100)" by blast
  have "(1::real) / 2 ^ 40 \<le> 1 / 10 ^ 11 * (99 / 100)" "(1::real) / 10 ^ 11 * (101 / 100) \<le> 1 / 2 ^ 30"
    by simp_all
  with e show ?thesis unfolding eps64_def by force
qed






section \<open>Facts about the functions in binary64\<close>










text \<open>The width 1.\<close>

lemma exponent_denominator_one:
  "\<exists>D. fadd (fmul (Fin 2) (pow64 (Fin 1) 2)) eps64 = Fin D \<and> 1 \<le> D \<and> D \<le> 3"
proof -
  obtain e where e: "eps64 = Fin e" "1 / 2 ^ 40 \<le> e" "e \<le> 1 / 2 ^ 30"
    using eps64_range by blast
  have "1 / 2 ^ 1000 \<le> (2::real)" "2 \<le> 2 + e" "2 + e \<le> 5 / 2" "(5::real) / 2 \<le> 2 ^ 1000"
    using e(2,3) by simp_all
  from round64_range [OF this] obtain D where
    D: "round64 (2 + e) = Fin D" "2 * (99 / 100) \<le> D" "D \<le> 5 / 2 * (101 / 100)" by blast
  have "fadd (fmul (Fin 2) (pow64 (Fin 1) 2)) eps64 = Fin D"
    unfolding e(1) using D(1) by simp
  with D(2,3) show ?thesis by force
qed

lemma amplitude_denominator_one:
  "\<exists>d. fadd (fmul (fsqrt (fmul (Fin 2) pi64)) (Fin 1)) eps64 = Fin d \<and> 4 / 5 \<le> d \<and> d \<le> 6"
proof -
  obtain c where c: "fsqrt (fmul (Fin 2) pi64) = Fin c" "9 / 10 \<le> c" "c \<le> 5"
    using sqrt_2pi64_range by blast
  obtain e where e: "eps64 = Fin e" "1 / 2 ^ 40 \<le> e" "e \<le> 1 / 2 ^ 30"
    using eps64_range by blast
  have "1 / 2 ^ 1000 \<le> (9::real) / 10" "(5::real) \<le> 2 ^ 1000" by simp_all
  from round64_range [OF this(1) c(2,3) this(2)] obtain p where
    p: "round64 c = Fin p" "9 / 10 * (99 / 100) \<le> p" "p \<le> 5 * (101 / 100)" by blast
  have "1 / 2 ^ 1000 \<le> (22::real) / 25" "22 / 25 \<le> p + e" "p + e \<le> 11 / 2"
    "(11::real) / 2 \<le> 2 ^ 1000"
    using p(2,3) e(2,3) by simp_all
  from round64_range [OF this] obtain d where
    d: "round64 (p + e) = Fin d" "22 / 25 * (99 / 100) \<le> d" "d \<le> 11 / 2 * (101 / 100)" by blast
  have "fadd (fmul (fsqrt (fmul (Fin 2) pi64)) (Fin 1)) eps64 = Fin d"
    unfolding c(1) e(1) using p(1) d(1) by simp
  with d(2,3) show ?thesis by force
qed

lemma amplitude_one:
  "\<exists>A. fdiv (Fin 1) (fadd (fmul (fsqrt (fmul (Fin 2) pi64)) (Fin 1)) eps64) = Fin A \<and>
       1 / 10 \<le> A \<and> A \<le> 2"
proof -
  obtain d where d: "fadd (fmul (fsqrt (fmul (Fin 2) pi64)) (Fin 1)) eps64 = Fin d"
      "4 / 5 \<le> d" "d \<le> 6"
    using amplitude_denominator_one by blast
  have d0: "0 < d" using d(2) by simp
  have "1 / 6 \<le> 1 / d" "1 / d \<le> 5 / 4"
    using d(2,3) d0 by (simp_all add: field_simps)
  then have "1 / 2 ^ 1000 \<le> (1::real) / 6" "1 / 6 \<le> 1 / d" "1 / d \<le> 5 / 4"
    "(5::real) / 4 \<le> 2 ^ 1000" by simp_all
  from round64_range [OF this] obtain A where
    A: "round64 (1 / d) = Fin A" "1 / 6 * (99 / 100) \<le> A" "A \<le> 5 / 4 * (101 / 100)" by blast
  have "fdiv (Fin 1) (Fin d) = Fin A" using d0 A(1) by simp
  with A(2,3) show ?thesis unfolding d(1) by force
qed


lemma exponential_at_centre:
  assumes "fadd (fmul (Fin 2) (pw sigma 2)) eps64 = Fin D" "D \<noteq> 0"
  shows "exp64 (fdiv (fneg (fmul (fsub (Fin 0) (Fin 0)) (fsub (Fin 0) (Fin 0))))
           (fadd (fmul (Fin 2) (pw sigma 2)) eps64)) = Fin 1"
  unfolding assms(1) using assms(2) by (simp add: fsub_def)

lemma gradient_row_f64_at_one:
  "\<exists>a c. gradient_row_f64 exp64 pow64 (Fin 0) (Fin 1) (Fin 0) (Fin 1) = (Fin a, Fin 0, Fin c)"
proof -
  obtain D where D: "fadd (fmul (Fin 2) (pow64 (Fin 1) 2)) eps64 = Fin D" "1 \<le> D" "D \<le> 3"
    using exponent_denominator_one by blast
  have D0: "D \<noteq> 0" using D(2) by simp
  note ex = exponential_at_centre [where pw = pow64, OF D(1) D0]
  obtain A where A: "fdiv (Fin 1) (fadd (fmul (fsqrt (fmul (Fin 2) pi64)) (Fin 1)) eps64) = Fin A"
      "1 / 10 \<le> A" "A \<le> 2"
    using amplitude_one by blast
  obtain d where d: "fadd (fmul (fsqrt (fmul (Fin 2) pi64)) (Fin 1)) eps64 = Fin d"
      "4 / 5 \<le> d" "d \<le> 6"
    using amplitude_denominator_one by blast
  obtain c where c: "fsqrt (fmul (Fin 2) pi64) = Fin c" "9 / 10 \<le> c" "c \<le> 5"
    using sqrt_2pi64_range by blast
  have "1 / 2 ^ 1000 \<le> (1::real) / 10" "1 / 10 \<le> A * 1" "A * 1 \<le> 2" "(2::real) \<le> 2 ^ 1000"
    using A(2,3) by simp_all
  from round64_range [OF this] obtain a where a: "round64 (A * 1) = Fin a" by blast
  have pI: "gaussian_partial_I_f64_at exp64 pow64 (Fin 0) (Fin 1) (Fin 0) (Fin 1) = Fin a"
    unfolding gaussian_partial_I_f64_at_def Let_def ex fsign.simps sgn_1 A(1)
    using a by simp
  have "1 / 2 ^ 1000 \<le> (9::real) / 10" "(5::real) \<le> 2 ^ 1000" by simp_all
  from round64_range [OF this(1) c(2,3) this(2)] obtain p where
    p: "round64 c = Fin p" "9 / 10 * (99 / 100) \<le> p" by blast
  have p0: "p \<noteq> 0" using p(2) by simp
  have pm: "gaussian_partial_mu_f64_at exp64 pow64 (Fin 0) (Fin 1) (Fin 0) (Fin 1) = Fin 0"
    unfolding gaussian_partial_mu_f64_at_def Let_def ex c(1)
    using p(1) p0 by (simp add: fsub_def)
  have d0: "0 < d" using d(2) by simp
  have "1 / 6 \<le> 1 / d" "1 / d \<le> 5 / 4"
    using d(2,3) d0 by (simp_all add: field_simps)
  then have "1 / 2 ^ 1000 \<le> (1::real) / 6" "1 / 6 \<le> - (- 1 / d)" "- (- 1 / d) \<le> 5 / 4"
    "(5::real) / 4 \<le> 2 ^ 1000" by simp_all
  from round64_range_neg [OF this] obtain r where
    r: "round64 (- 1 / d) = Fin r" "1 / 6 * (99 / 100) \<le> - r" "- r \<le> 5 / 4 * (101 / 100)"
    by blast
  have "1 / 2 ^ 1000 \<le> (1::real) / 10" "1 / 10 \<le> - r" "- r \<le> 2" "(2::real) \<le> 2 ^ 1000"
    using r(2,3) by simp_all
  from round64_range_neg [OF this] obtain s where s: "round64 r = Fin s" by blast
  have den: "fadd (fmul (fsqrt (fmul (Fin 2) pi64)) (pow64 (Fin 1) 2)) eps64 = Fin d"
    using d(1) by simp
  have ps: "gaussian_partial_sigma_f64_at exp64 pow64 (Fin 0) (Fin 1) (Fin 0) (Fin 1) = Fin s"
    unfolding gaussian_partial_sigma_f64_at_def Let_def ex den
    using r(1) s d0 by (simp add: fsub_def)
  show ?thesis
    unfolding gradient_row_f64_def pI pm ps by blast
qed

text \<open>The width \<open>2 ^ - 400\<close>, whose cube underflows.\<close>

lemma pow64_cube_underflow: "pow64 (Fin (1 / 2 ^ 400)) 3 = Fin 0"
proof -
  have "((1::real) / 2 ^ 400) ^ 3 = 1 / 2 ^ 1200"
    by (simp add: power_divide)
  moreover have "\<bar>(1::real) / 2 ^ 1200\<bar> < 2 powr (- 1075)"
    by (simp add: powr_neg_numeral)
  ultimately have "round64 (((1::real) / 2 ^ 400) ^ 3) = Fin 0"
    by (simp only: round64_underflow)
  then show ?thesis by (simp only: pow64.simps)
qed

lemma gaussian_partial_mu_f64_nan:
  "gaussian_partial_mu_f64_at exp64 pow64 (Fin 0) (Fin 1) (Fin 0) (Fin (1 / 2 ^ 400)) = NaN"
proof -
  obtain c where c: "fsqrt (fmul (Fin 2) pi64) = Fin c"
    using sqrt_2pi64_range by blast
  have "fdiv (fmul (Fin 1) (fsub (Fin 0) (Fin 0)))
          (fmul (fsqrt (fmul (Fin 2) pi64)) (pow64 (Fin (1 / 2 ^ 400)) 3)) = NaN"
    unfolding c pow64_cube_underflow by (simp add: fsub_def)
  then show ?thesis
    unfolding gaussian_partial_mu_f64_at_def Let_def by (simp only: fmul.simps)
qed

text \<open>The gradient with and without the all-zero direction.\<close>

lemma gaussian_gradient_f64_None:
  "gaussian_gradient_f64 exp_impl pow_impl pow_arr x I mu sigma None =
     Inr (map (\<lambda>xj. gradient_row_f64 exp_impl pow_impl xj I mu sigma) x)"
  by (simp add: gaussian_gradient_f64_def gradient_row_f64_def Let_def zip3_map)

lemma unperturbed:
  assumes "is_float64 a"
  shows "fadd (fmul (Fin 1) a) (fmul (Fin e) (Fin 0)) = a"
  using assms by (cases a) simp_all

lemma gradient_row_f64_power:
  assumes "pw sigma 2 = pw' sigma 2" "pw sigma 3 = pw' sigma 3"
  shows "gradient_row_f64 exp_impl pw x I mu sigma = gradient_row_f64 exp_impl pw' x I mu sigma"
  using assms
  by (simp add: gradient_row_f64_def gaussian_partial_I_f64_at_def gaussian_partial_mu_f64_at_def
        gaussian_partial_sigma_f64_at_def)

lemma np_elementwise4_constant:
  "np_elementwise4 f x (map (\<lambda>_. I) x) (map (\<lambda>_. mu) x) (map (\<lambda>_. sigma) x) =
     Inr (map (\<lambda>xj. f xj I mu sigma) x)"
proof -
  have len: "length (map (\<lambda>_. I) x) = length x" "length (map (\<lambda>_. mu) x) = length x"
    "length (map (\<lambda>_. sigma) x) = length x" by simp_all
  have Z: "zip x (zip (map (\<lambda>_. I) x) (zip (map (\<lambda>_. mu) x) (map (\<lambda>_. sigma) x))) =
             map (\<lambda>xj. (xj, I, mu, sigma)) x"
    by (induction x) simp_all
  show ?thesis
    unfolding np_elementwise4_same_length [OF len] Z by (simp add: comp_def)
qed

lemma np_broadcast_unperturbed:
  assumes "is_float64 a"
  shows "np_broadcast fadd (map (\<lambda>_. fmul (Fin 1) a) x) (map (\<lambda>_. fmul (Fin e) (Fin 0)) x) =
           Inr (map (\<lambda>_. a) x)"
proof -
  have "map2 fadd (map (\<lambda>_. fmul (Fin 1) a) x) (map (\<lambda>_. fmul (Fin e) (Fin 0)) x) =
          map (\<lambda>_. a) x"
    using unperturbed [OF assms, of e] by (induction x) simp_all
  then show ?thesis by (simp only: np_broadcast_same_length length_map)
qed

lemma gaussian_gradient_f64_zero_direction:
  assumes "is_float64 I" "is_float64 mu" "is_float64 sigma"
  shows "gaussian_gradient_f64 exp_impl pow_impl pow_arr x I mu sigma
           (Some (map (row64_map (fmul (Fin e))) (map (\<lambda>_. (Fin 0, Fin 0, Fin 0)) x))) =
         Inr (map (\<lambda>xj. gradient_row_f64 exp_impl (np_power pow_arr) xj I mu sigma) x)"
proof -
  let ?z = "fmul (Fin e) (Fin 0)"
  let ?dv = "map (row64_map (fmul (Fin e))) (map (\<lambda>_. (Fin 0, Fin 0, Fin 0)) x)"
  have dv: "?dv = map (\<lambda>_. (?z, ?z, ?z)) x"
    by (simp add: row64_map_def)
  have cols: "map fst (map (\<lambda>_. (?z, ?z, ?z)) x) = map (\<lambda>_. ?z) x"
    "map (\<lambda>r. fst (snd r)) (map (\<lambda>_. (?z, ?z, ?z)) x) = map (\<lambda>_. ?z) x"
    "map (\<lambda>r. snd (snd r)) (map (\<lambda>_. (?z, ?z, ?z)) x) = map (\<lambda>_. ?z) x"
    by (simp_all add: comp_def)
  show ?thesis
    unfolding dv gaussian_gradient_f64_def Let_def option.case cols
      np_broadcast_unperturbed [OF assms(1)] np_broadcast_unperturbed [OF assms(2)]
      np_broadcast_unperturbed [OF assms(3)] bind_err_simps np_elementwise4_constant
      zip3_map gradient_row_f64_def ..
qed

lemma difference_quotient_entry:
  assumes "e \<noteq> 0"
  shows "fdiv (fsub g g) (Fin e) = zero_or_nan g"
  using assms by (cases g) (simp_all add: fsub_def)

lemma zero_direction_rows_f64:
  assumes "is_float64 I" "is_float64 mu" "is_float64 sigma" "0 < e"
    and "pow_impl sigma 2 = fmul sigma sigma" "pow_arr sigma 3 = pow_impl sigma 3"
  shows "hessian_product_f64 exp_impl pow_impl pow_arr x I mu sigma
           (map (\<lambda>_. (Fin 0, Fin 0, Fin 0)) x) (Fin e) =
         Inr (map (\<lambda>xj. row64_map zero_or_nan (gradient_row_f64 exp_impl pow_impl xj I mu sigma)) x)"
proof -
  have pw: "gradient_row_f64 exp_impl (np_power pow_arr) xj I mu sigma =
            gradient_row_f64 exp_impl pow_impl xj I mu sigma" for xj
    by (rule gradient_row_f64_power) (simp_all add: np_power_def assms(5,6))
  have row: "row64_map (\<lambda>v. fdiv v (Fin e)) (row64_map2 fsub r r) = row64_map zero_or_nan r" for r
    using assms(4) by (cases r) (simp add: row64_map_def row64_map2_def difference_quotient_entry)
  show ?thesis
    unfolding hessian_product_f64_def gaussian_gradient_f64_zero_direction [OF assms(1-3)]
      gaussian_gradient_f64_None pw bind_err_simps
    by (simp add: np_broadcast_same_length zip_same_conv_map row)
qed

section \<open>The Gaussian model\<close>

text \<open>
  C1. At every sample position \<open>x ! j\<close> and for all parameters, \<open>gaussian\<close> returns
  \<open>|I| / (sqrt (2 pi) sigma + eps) * exp (- (x ! j - mu)^2 / (2 sigma^2 + eps))\<close> with
  \<open>eps = 1e-11\<close> added to both denominators. The denominator of the exponent is always
  positive; where the denominator of the amplitude vanishes the expression, and with it
  the result, is a division by zero.
\<close>

theorem gaussian_formula:
  assumes "j < length x"
  shows "eps = 1 / 10 ^ 11 \<and>
         length (gaussian x I mu sigma) = length x \<and>
         gaussian x I mu sigma ! j =
           (if sqrt (2 * pi) * sigma + eps = 0 then None
            else Some (\<bar>I\<bar> / (sqrt (2 * pi) * sigma + eps) *
                       exp (- (x ! j - mu)\<^sup>2 / (2 * sigma\<^sup>2 + eps))))"
  using assms by (simp add: gaussian_def gaussian_at_Some eps_def)

theorem gaussian_formula_witness:
  "(0::nat) < length [2::real] \<and>
   gaussian [2] (- 3) 2 1 ! 0 = Some (3 / (sqrt (2 * pi) + eps))"
  using gaussian_formula [where j = 0 and x = "[2]" and I = "- 3" and mu = 2 and sigma = 1]
    amplitude_denominator_pos [of 1]
  by simp







section \<open>The Hessian-vector product\<close>

text \<open>
  C2. For a sample vector \<open>x\<close>, a peak \<open>(I, mu, sigma)\<close>, a direction block \<open>d\<close> with one
  row per sample and any \<open>epsilon\<close>, \<open>hessian_product\<close> returns
  \<open>(g_perturbed - g_base) / epsilon\<close>, where \<open>g_base\<close> is the gradient without a direction
  and \<open>g_perturbed\<close> is the gradient called with the direction \<open>epsilon * d\<close>: row \<open>j\<close> of
  it holds the three partials at \<open>x ! j\<close> and at the parameters
  \<open>I + epsilon * d[j,0]\<close>, \<open>mu + epsilon * d[j,1]\<close>, \<open>sigma + epsilon * d[j,2]\<close>.
\<close>

theorem hessian_product_forward_difference:
  assumes "length d = length x"
  shows "let g_perturbed =
               map2 (\<lambda>xj (dI, dm, ds).
                       gradient_row (Some xj)
                         (np_add (Some I) (np_mul (Some epsilon) dI))
                         (np_add (Some mu) (np_mul (Some epsilon) dm))
                         (np_add (Some sigma) (np_mul (Some epsilon) ds))) x d;
             g_base = map (\<lambda>xj. gradient_row (Some xj) (Some I) (Some mu) (Some sigma)) x
         in gaussian_gradient x I mu sigma (Some (map (row_map (np_mul (Some epsilon))) d)) =
              Inr g_perturbed \<and>
            gaussian_gradient x I mu sigma None = Inr g_base \<and>
            hessian_product x I mu sigma d epsilon =
              Inr (map2 (\<lambda>p b. row_map (\<lambda>v. np_divide v (Some epsilon)) (row_map2 np_sub p b))
                     g_perturbed g_base)"
  using assms
  by (simp add: Let_def hessian_product_def gaussian_gradient_scaled gaussian_gradient_None
        np_broadcast_same_length map_zip_map2 case_prod_unfold zip_map2 zip_map1)

theorem hessian_product_forward_difference_witness:
  "length [(Some 1, Some 0, Some 0)] = length [0::real] \<and>
   hessian_product [0] 1 0 1 [(Some 1, Some 0, Some 0)] 1 =
     Inr [(Some 0, Some 0, Some (- (1 / (sqrt (2 * pi) + eps))))]"
  using hessian_product_forward_difference
      [where d = "[(Some 1, Some 0, Some 0)]" and x = "[0]" and I = 1 and mu = 0 and sigma = 1
         and epsilon = 1]
    amplitude_denominator_pos [of 1] eps_add_nonzero [of 2]
  by (simp add: gradient_row_def gaussian_partial_I_at_def gaussian_partial_mu_at_def
        gaussian_partial_sigma_at_def row_map_def row_map2_def Let_def)

text \<open>
  C8, as amended. For every finite \<open>epsilon > 0\<close>, every sample vector and every peak
  \<open>(I, mu, sigma)\<close> with \<open>sigma \<noteq> 0\<close> at which \<open>pow\<close> agrees with the array operations of
  the perturbed call (the scalar \<open>sigma ** 2\<close> equals the product \<open>sigma * sigma\<close>, and the
  power loop over an array gives the same \<open>sigma ** 3\<close> as the scalar power),
  \<open>hessian_product\<close> with the all-zero direction block returns, entry by entry, 0 where
  the entry of the gradient is finite and \<open>nan\<close> where it is \<open>inf\<close> or \<open>nan\<close>.
\<close>

theorem hessian_product_f64_zero_direction:
  assumes "is_float64 I" "is_float64 mu" "is_float64 sigma" "sigma \<noteq> Fin 0" "0 < e"
    and "pow_impl sigma 2 = fmul sigma sigma" "pow_arr sigma 3 = pow_impl sigma 3"
  shows "hessian_product_f64 exp_impl pow_impl pow_arr x I mu sigma
           (map (\<lambda>_. (Fin 0, Fin 0, Fin 0)) x) (Fin e) =
         Inr (map (\<lambda>xj. row64_map zero_or_nan (gradient_row_f64 exp_impl pow_impl xj I mu sigma)) x)"
  using assms(1-3,5-7) by (rule zero_direction_rows_f64)

theorem hessian_product_f64_zero_direction_witness:
  "is_float64 (Fin 1) \<and> is_float64 (Fin 0) \<and> Fin 1 \<noteq> Fin 0 \<and> (0::real) < 1 / 2 ^ 17 \<and>
   pow64 (Fin 1) 2 = fmul (Fin 1) (Fin 1) \<and> pow64 (Fin 1) 3 = pow64 (Fin 1) 3 \<and>
   hessian_product_f64 exp64 pow64 pow64 [Fin 0] (Fin 1) (Fin 0) (Fin 1) [(Fin 0, Fin 0, Fin 0)]
     (Fin (1 / 2 ^ 17)) = Inr [(Fin 0, Fin 0, Fin 0)]"
  using hessian_product_f64_zero_direction
      [where I = "Fin 1" and mu = "Fin 0" and sigma = "Fin 1" and e = "1 / 2 ^ 17"
         and pow_impl = pow64 and pow_arr = pow64 and exp_impl = exp64 and x = "[Fin 0]"]
    gradient_row_f64_at_one
  by (auto simp add: row64_map_def)

text \<open>
  C8 as stated, for every peak, fails at the peak \<open>(1, 0, 2 ^ - 400)\<close> with the sample 0
  and \<open>epsilon = 1\<close>: \<open>sigma ** 3\<close> underflows to 0, the \<open>mu\<close> column of both gradients is
  \<open>0 / 0\<close>, and the \<open>mu\<close> entry of the result is \<open>nan\<close>.
\<close>

theorem hessian_product_f64_zero_direction_nan:
  "\<exists>a c. hessian_product_f64 exp64 pow64 pow64 [Fin 0] (Fin 1) (Fin 0) (Fin (1 / 2 ^ 400))
            [(Fin 0, Fin 0, Fin 0)] (Fin 1) = Inr [(a, NaN, c)]"
proof -
  have s: "is_float64 (Fin (1 / 2 ^ 400))"
    unfolding is_float64.simps by (rule round64_inverse_power_of_two) simp
  have sq: "pow64 (Fin (1 / 2 ^ 400)) 2 = fmul (Fin (1 / 2 ^ 400)) (Fin (1 / 2 ^ 400))"
    by (simp only: pow64.simps fmul.simps power2_eq_square)
  have "hessian_product_f64 exp64 pow64 pow64 [Fin 0] (Fin 1) (Fin 0) (Fin (1 / 2 ^ 400))
          (map (\<lambda>_. (Fin 0, Fin 0, Fin 0)) [Fin 0]) (Fin 1) =
        Inr (map (\<lambda>xj. row64_map zero_or_nan
               (gradient_row_f64 exp64 pow64 xj (Fin 1) (Fin 0) (Fin (1 / 2 ^ 400)))) [Fin 0])"
    using s sq
    by (intro zero_direction_rows_f64
          [where sigma = "Fin (1 / 2 ^ 400)" and pow_impl = pow64 and pow_arr = pow64]) simp_all
  then have "hessian_product_f64 exp64 pow64 pow64 [Fin 0] (Fin 1) (Fin 0) (Fin (1 / 2 ^ 400))
          [(Fin 0, Fin 0, Fin 0)] (Fin 1) =
        Inr [(zero_or_nan (gaussian_partial_I_f64_at exp64 pow64 (Fin 0) (Fin 1) (Fin 0)
                 (Fin (1 / 2 ^ 400))),
              NaN,
              zero_or_nan (gaussian_partial_sigma_f64_at exp64 pow64 (Fin 0) (Fin 1) (Fin 0)
                 (Fin (1 / 2 ^ 400))))]"
    by (simp only: list.map gradient_row_f64_def row64_map_def prod.case
          gaussian_partial_mu_f64_nan zero_or_nan.simps)
  then show ?thesis by blast
qed

section \<open>The step size\<close>



section \<open>The conjugate coefficient\<close>

text \<open>
  C9. \<open>get_beta\<close> divides by the row-wise inner product of the direction and the
  Hessian-vector block with nothing added. At a sample row \<open>j\<close> where that inner product
  is exactly zero the result of \<open>get_beta\<close> is a division by zero, whereas \<open>get_alpha\<close>,
  which adds \<open>eps\<close> to the same inner product, returns a finite value there.
\<close>

theorem get_beta_division_by_zero:
  assumes "length G = N" "length H = N" "length D = N" "j < N" "dot3 (D ! j) (H ! j) = 0"
  shows "(\<exists>beta. get_beta (finite_block G) (finite_block H) (finite_block D) = Inr beta \<and>
            length beta = N \<and> beta ! j = None) \<and>
         (\<exists>alpha. get_alpha [p1, p2, p3] (finite_block G) (finite_block H) (finite_block D) =
              Inr alpha \<and>
            length alpha = N \<and>
            alpha ! j = Some (- (dot3 (H ! j) (p1, p2, p3) + dot3 (D ! j) (G ! j)) / eps))"
  using assms eps_pos
  by (simp add: get_beta_finite [of G N H D] get_alpha_finite [of G N H D])

theorem get_beta_division_by_zero_witness:
  "length [(1, 2, 3)] = (1::nat) \<and> length [(0, 0, 0)] = (1::nat) \<and> length [(1, 0, 0)] = (1::nat) \<and>
   (0::nat) < 1 \<and> dot3 ([(1, 0, 0)] ! 0) ([(0, 0, 0)] ! 0) = 0 \<and>
   get_beta (finite_block [(1, 2, 3)]) (finite_block [(0, 0, 0)]) (finite_block [(1, 0, 0)]) =
     Inr [None] \<and>
   get_alpha [1, 1, 1] (finite_block [(1, 2, 3)]) (finite_block [(0, 0, 0)])
     (finite_block [(1, 0, 0)]) = Inr [Some (- 1 / eps)]"
  using get_beta_division_by_zero
      [where G = "[(1, 2, 3)]" and N = 1 and H = "[(0, 0, 0)]" and D = "[(1, 0, 0)]" and j = 0
         and ?p1.0 = 1 and ?p2.0 = 1 and ?p3.0 = 1]
  by (auto simp add: dot3_def length_Suc_conv)

section \<open>The main algorithm\<close>

text \<open>
  C4, as amended. For every parameter vector whose length is not a multiple of 3,
  \<open>multiple_gaussians\<close> returns no curve: it raises \<open>IndexError\<close> at the incomplete last
  triplet, and at that point \<open>output_result\<close> holds the sum of the Gaussians of all the
  complete triplets before it, which is the curve that \<open>multiple_gaussians\<close> returns for
  the vector cut down to those triplets. There is no check of the length beforehand.
\<close>

theorem multiple_gaussians_bad_length:
  assumes "length params mod 3 \<noteq> 0"
  shows "\<exists>out. multiple_gaussians x params = Inl (IndexError, out) \<and>
           multiple_gaussians x (take (3 * (length params div 3)) params) = Inr out"
  using multiple_gaussians_loop_bad_length [OF assms] by (simp add: multiple_gaussians_def)

theorem multiple_gaussians_bad_length_witness:
  "length [1, 0 :: real] mod 3 \<noteq> 0 \<and>
   (\<exists>out. multiple_gaussians [5] [1, 0] = Inl (IndexError, out) \<and>
      multiple_gaussians [5] (take (3 * (length [1, 0 :: real] div 3)) [1, 0]) = Inr out)"
  using multiple_gaussians_bad_length [where params = "[1, 0]" and x = "[5]"] by simp

text \<open>
  C4 as stated, a \<open>ConfigurationError\<close> before any computation, fails for a vector of
  10 parameters: three Gaussians have been added to \<open>output_result\<close> when \<open>IndexError\<close>
  is raised.
\<close>

theorem multiple_gaussians_counterexample:
  "multiple_gaussians [0] [1, 0, 1, 1, 0, 1, 1, 0, 1, 1] =
     Inl (IndexError, [Some (3 / (sqrt (2 * pi) + eps))]) \<and>
   multiple_gaussians [0] [1, 0, 1, 1, 0, 1, 1, 0, 1, 1] \<noteq> Inl (ConfigurationError, [Some 0])"
  using amplitude_denominator_pos [of 1]
  by (simp add: multiple_gaussians_def gaussian_def gaussian_at_Some)

text \<open>
  C5. The claim is that the first direction is the negated gradient and that every later
  direction is \<open>- grad_vec + beta * dir_vec\<close>. On one sample and one peak neither
  function produces a direction: \<open>single_iter\<close> raises \<open>TypeError\<close> at its call of
  \<open>get_beta\<close> with four arguments, before the line that forms the new direction, and
  \<open>list_dirvecs\<close> raises \<open>TypeError\<close> when it unpacks the integer \<open>triplet\<close>.
\<close>

theorem single_iter_no_direction_update:
  "single_iter [0] [1, 0, 1] [(Some 1, Some 0, Some 0)] = Inl TypeError \<and>
   list_dirvecs [0] [1, 0, 1] = Inl TypeError"
  by (simp add: single_iter_TypeError list_dirvecs_cases)

text \<open>
  C6. The claim is that the loop of \<open>conjugate_gradient\<close> stops, at a threshold or at an
  iteration cap. With an empty parameter vector the loop is entered, its body does
  nothing, \<open>switch\<close> stays set, and the call never returns.
\<close>

theorem conjugate_gradient_never_returns:
  "conjugate_gradient x y [] = None"
proof -
  have "conjugate_gradient x y [] = while_switch True x [] []"
    by (simp add: conjugate_gradient_def list_dirvecs_cases range3_def)
  also have "\<dots> = None"
    by (rule while_switch_diverges [where u = "()"]) simp
  finally show ?thesis .
qed

end
